theory Spec2Isabelle
  imports Complex_Main "HOL-Library.AList"
begin

section \<open>JavaScript values\<close>

text \<open>
  The screens receive rows of the hosted store as untyped JSON (\<^verbatim>\<open>any\<close>), and the
  source tests them with \<^verbatim>\<open>!x\<close>, \<^verbatim>\<open>x || y\<close>, \<^verbatim>\<open>Array.isArray\<close> and \<^verbatim>\<open>typeof\<close>.
  A number is \<^verbatim>\<open>NaN\<close>, an infinity (\<open>Infinity True\<close> is the positive one), or a finite
  value; the finite value is kept as the exact rational the literal denotes (its rounding
  to a binary64 is not modelled).
\<close>

datatype jsnum = NaN | Infinity bool | Fin rat

datatype js =
    JUndefined
  | JNull
  | JBool bool
  | JNum jsnum
  | JStr string
  | JArr "js list"
  | JObj "(string \<times> js) list"
  | JFun string

text \<open>\<^verbatim>\<open>ToBoolean\<close>: the falsy values are undefined, null, false, 0, NaN and the empty string.\<close>

fun truthy :: "js \<Rightarrow> bool" where
  "truthy JUndefined = False"
| "truthy JNull = False"
| "truthy (JBool b) = b"
| "truthy (JNum n) = (n \<noteq> NaN \<and> n \<noteq> Fin 0)"
| "truthy (JStr s) = (s \<noteq> [])"
| "truthy (JArr xs) = True"
| "truthy (JObj ps) = True"
| "truthy (JFun f) = True"

text \<open>\<^verbatim>\<open>a || b\<close>\<close>

definition js_or :: "js \<Rightarrow> js \<Rightarrow> js" where
  "js_or a b = (if truthy a then a else b)"

fun isArray :: "js \<Rightarrow> bool" where
  "isArray (JArr xs) = True"
| "isArray v = False"

fun isString :: "js \<Rightarrow> bool" where
  "isString (JStr s) = True"
| "isString v = False"

text \<open>
  Property access \<^verbatim>\<open>obj[key]\<close> on a plain object: an own property first, then the
  prototype chain. A plain object inherits from \<^verbatim>\<open>Object.prototype\<close>, whose members are
  functions, and whose accessor \<^verbatim>\<open>__proto__\<close> yields the prototype object itself.
  A name found nowhere reads as \<^verbatim>\<open>undefined\<close>.
\<close>

definition Object_prototype :: "string list" where
  "Object_prototype =
     [''constructor'', ''hasOwnProperty'', ''isPrototypeOf'', ''propertyIsEnumerable'',
      ''toLocaleString'', ''toString'', ''valueOf'', ''__defineGetter__'',
      ''__defineSetter__'', ''__lookupGetter__'', ''__lookupSetter__'']"

definition js_get :: "(string \<times> js) list \<Rightarrow> string \<Rightarrow> js" where
  "js_get props key =
     (case map_of props key of
        Some v \<Rightarrow> v
      | None \<Rightarrow>
          if key \<in> set Object_prototype then JFun key
          else if key = ''__proto__'' then JObj (map (\<lambda>n. (n, JFun n)) Object_prototype)
          else JUndefined)"

section \<open>Numeric text\<close>

definition is_digit :: "char \<Rightarrow> bool" where
  "is_digit c = (c \<in> set ''0123456789'')"

definition digit_val :: "char \<Rightarrow> nat" where
  "digit_val c = of_char c - 48"

definition digits_val :: "string \<Rightarrow> nat" where
  "digits_val ds = foldl (\<lambda>a c. 10 * a + digit_val c) 0 ds"

definition pow10 :: "int \<Rightarrow> rat" where
  "pow10 e = (if 0 \<le> e then 10 ^ nat e else 1 / 10 ^ nat (- e))"

text \<open>The exponent part \<^verbatim>\<open>[eE] [+-]? digits\<close>, if there is one: the power of ten and the rest.\<close>

definition exponent_part :: "string \<Rightarrow> (int \<times> string) option" where
  "exponent_part s =
     (case s of
        [] \<Rightarrow> Some (0, s)
      | c # r \<Rightarrow>
          if c = CHR ''e'' \<or> c = CHR ''E'' then
            (let (neg, r1) =
                   (case r of
                      [] \<Rightarrow> (False, r)
                    | d # r' \<Rightarrow>
                        if d = CHR ''-'' then (True, r')
                        else if d = CHR ''+'' then (False, r')
                        else (False, r));
                 ds = takeWhile is_digit r1
             in if ds = [] then None
                else Some ((if neg then - int (digits_val ds) else int (digits_val ds)),
                           dropWhile is_digit r1))
          else Some (0, s))"

subsection \<open>\<^verbatim>\<open>Number(x)\<close> on the value of a form field\<close>

text \<open>
  A numeric form field holds the stored number until the user edits it, and the text of
  the input element afterwards (\<^verbatim>\<open>string | number\<close>).
\<close>

datatype text_or_number = Text string | Numeric jsnum

definition is_strws :: "char \<Rightarrow> bool" where
  "is_strws c = (of_char c \<in> {9, 10, 11, 12, 13, 32 :: nat})"

definition trim :: "string \<Rightarrow> string" where
  "trim s = rev (dropWhile is_strws (rev (dropWhile is_strws s)))"

definition hex_digit :: "char \<Rightarrow> nat option" where
  "hex_digit c =
     (let n = (of_char c :: nat)
      in if 48 \<le> n \<and> n \<le> 57 then Some (n - 48)
         else if 97 \<le> n \<and> n \<le> 102 then Some (n - 87)
         else if 65 \<le> n \<and> n \<le> 70 then Some (n - 55)
         else None)"

fun radix_digits :: "nat \<Rightarrow> nat \<Rightarrow> string \<Rightarrow> nat option" where
  "radix_digits r acc [] = Some acc"
| "radix_digits r acc (c # cs) =
     (case hex_digit c of
        None \<Rightarrow> None
      | Some d \<Rightarrow> if d < r then radix_digits r (r * acc + d) cs else None)"

text \<open>\<^verbatim>\<open>0x\<close>, \<^verbatim>\<open>0o\<close> and \<^verbatim>\<open>0b\<close> literals (no sign, at least one digit).\<close>

definition non_decimal :: "string \<Rightarrow> nat option" where
  "non_decimal t =
     (case t of
        z # p # ds \<Rightarrow>
          if z \<noteq> CHR ''0'' \<or> ds = [] then None
          else if p = CHR ''x'' \<or> p = CHR ''X'' then radix_digits 16 0 ds
          else if p = CHR ''o'' \<or> p = CHR ''O'' then radix_digits 8 0 ds
          else if p = CHR ''b'' \<or> p = CHR ''B'' then radix_digits 2 0 ds
          else None
      | _ \<Rightarrow> None)"

text \<open>
  An unsigned decimal literal that is the whole text: \<^verbatim>\<open>digits [. [digits]] [exp]\<close> or
  \<^verbatim>\<open>. digits [exp]\<close>.
\<close>

definition str_decimal :: "string \<Rightarrow> rat option" where
  "str_decimal u =
     (let ip = takeWhile is_digit u;
          r = dropWhile is_digit u;
          (fp, r2) =
             (case r of
                [] \<Rightarrow> ([], r)
              | c # r' \<Rightarrow>
                  if c = CHR ''.'' then (takeWhile is_digit r', dropWhile is_digit r')
                  else ([], r))
      in if ip = [] \<and> fp = [] then None
         else case exponent_part r2 of
                None \<Rightarrow> None
              | Some (e, rest) \<Rightarrow>
                  if rest \<noteq> [] then None
                  else Some ((of_nat (digits_val ip) + of_nat (digits_val fp) / 10 ^ length fp)
                             * pow10 e))"

text \<open>
  \<^verbatim>\<open>StringToNumber\<close>: blank text is 0, a numeric literal surrounded by white space is its
  value, any other text is \<^verbatim>\<open>NaN\<close>.
\<close>

definition StringToNumber :: "string \<Rightarrow> jsnum" where
  "StringToNumber s =
     (let t = trim s
      in if t = [] then Fin 0
         else case non_decimal t of
                Some n \<Rightarrow> Fin (of_nat n)
              | None \<Rightarrow>
                  (let (neg, u) =
                         (case t of
                            [] \<Rightarrow> (False, t)
                          | c # r \<Rightarrow>
                              if c = CHR ''-'' then (True, r)
                              else if c = CHR ''+'' then (False, r)
                              else (False, t))
                   in if u = ''Infinity'' then Infinity (\<not> neg)
                      else case str_decimal u of
                             None \<Rightarrow> NaN
                           | Some m \<Rightarrow> Fin (if neg then - m else m)))"

fun Number :: "text_or_number \<Rightarrow> jsnum" where
  "Number (Numeric n) = n"
| "Number (Text s) = StringToNumber s"

subsection \<open>A reading of \<^verbatim>\<open>JSON.parse\<close>\<close>

text \<open>
  An executable reading of the JSON grammar (RFC 8259), used to run \<^verbatim>\<open>parseLineItems\<close>
  on concrete texts. \<open>None\<close> stands for the \<^verbatim>\<open>SyntaxError\<close>. It does not decode
  \<^verbatim>\<open>\u\<close> escapes (it refuses them). The fuel bounds the recursion: of two nested
  calls at least one hands on a shorter text, and \<open>JSON_parse\<close> supplies twice the length
  of the text and two.
\<close>

definition is_ws :: "char \<Rightarrow> bool" where
  "is_ws c = (of_char c \<in> {9, 10, 13, 32 :: nat})"

definition skip_ws :: "string \<Rightarrow> string" where
  "skip_ws s = dropWhile is_ws s"

definition json_fraction :: "string \<Rightarrow> (rat \<times> string) option" where
  "json_fraction s =
     (case s of
        [] \<Rightarrow> Some (0, s)
      | c # r \<Rightarrow>
          if c = CHR ''.'' then
            (let ds = takeWhile is_digit r
             in if ds = [] then None
                else Some (of_nat (digits_val ds) / 10 ^ length ds, dropWhile is_digit r))
          else Some (0, s))"

definition json_number :: "string \<Rightarrow> (js \<times> string) option" where
  "json_number s =
     (let (neg, r1) =
            (case s of
               [] \<Rightarrow> (False, s)
             | c # r \<Rightarrow> if c = CHR ''-'' then (True, r) else (False, s));
          ip = takeWhile is_digit r1
      in if ip = [] \<or> (1 < length ip \<and> hd ip = CHR ''0'') then None
         else case json_fraction (dropWhile is_digit r1) of
                None \<Rightarrow> None
              | Some (f, r2) \<Rightarrow>
                  (case exponent_part r2 of
                     None \<Rightarrow> None
                   | Some (e, r3) \<Rightarrow>
                       (let m = (of_nat (digits_val ip) + f) * pow10 e
                        in Some (JNum (Fin (if neg then - m else m)), r3))))"

definition json_escape :: "char \<Rightarrow> char option" where
  "json_escape e =
     (if e = CHR 0x22 then Some (CHR 0x22)
      else if e = CHR 0x5C then Some (CHR 0x5C)
      else if e = CHR ''/'' then Some (CHR ''/'')
      else if e = CHR ''b'' then Some (CHR 0x08)
      else if e = CHR ''f'' then Some (CHR 0x0C)
      else if e = CHR ''n'' then Some (CHR 0x0A)
      else if e = CHR ''r'' then Some (CHR 0x0D)
      else if e = CHR ''t'' then Some (CHR 0x09)
      else None)"

text \<open>The characters of a string after its opening quote, up to the closing quote.\<close>

fun json_string :: "string \<Rightarrow> (string \<times> string) option" where
  "json_string [] = None"
| "json_string [c] = (if c = CHR 0x22 then Some ([], []) else None)"
| "json_string (c # e # r) =
     (if c = CHR 0x22 then Some ([], e # r)
      else if of_char c < (32::nat) then None
      else if c = CHR 0x5C then
        (case json_escape e of
           None \<Rightarrow> None
         | Some d \<Rightarrow> map_option (\<lambda>(str, rest). (d # str, rest)) (json_string r))
      else map_option (\<lambda>(str, rest). (c # str, rest)) (json_string (e # r)))"

definition json_literal :: "string \<Rightarrow> (js \<times> string) option" where
  "json_literal s =
     (if take 4 s = ''true'' then Some (JBool True, drop 4 s)
      else if take 5 s = ''false'' then Some (JBool False, drop 5 s)
      else if take 4 s = ''null'' then Some (JNull, drop 4 s)
      else json_number s)"

fun json_value :: "nat \<Rightarrow> string \<Rightarrow> (js \<times> string) option"
  and json_elements :: "nat \<Rightarrow> string \<Rightarrow> (js list \<times> string) option"
  and json_members ::
    "nat \<Rightarrow> (string \<times> js) list \<Rightarrow> string \<Rightarrow> ((string \<times> js) list \<times> string) option"
where
  "json_value 0 s = None"
| "json_value (Suc n) s =
     (case skip_ws s of
        [] \<Rightarrow> None
      | c # cs \<Rightarrow>
          if c = CHR ''['' then
            (case skip_ws cs of
               [] \<Rightarrow> None
             | d # r \<Rightarrow>
                 if d = CHR '']'' then Some (JArr [], r)
                 else map_option (\<lambda>(xs, rest). (JArr xs, rest)) (json_elements n cs))
          else if c = CHR ''{'' then
            (case skip_ws cs of
               [] \<Rightarrow> None
             | d # r \<Rightarrow>
                 if d = CHR ''}'' then Some (JObj [], r)
                 else map_option (\<lambda>(ps, rest). (JObj ps, rest)) (json_members n [] cs))
          else if c = CHR 0x22 then
            map_option (\<lambda>(str, rest). (JStr str, rest)) (json_string cs)
          else json_literal (c # cs))"
| "json_elements 0 s = None"
| "json_elements (Suc n) s =
     (case json_value n s of
        None \<Rightarrow> None
      | Some (v, r) \<Rightarrow>
          (case skip_ws r of
             [] \<Rightarrow> None
           | c # r' \<Rightarrow>
               if c = CHR '','' then
                 map_option (\<lambda>(vs, rest). (v # vs, rest)) (json_elements n r')
               else if c = CHR '']'' then Some ([v], r')
               else None))"
| "json_members 0 acc s = None"
| "json_members (Suc n) acc s =
     (case skip_ws s of
        [] \<Rightarrow> None
      | q # r \<Rightarrow>
          if q \<noteq> CHR 0x22 then None
          else
            (case json_string r of
               None \<Rightarrow> None
             | Some (k, r1) \<Rightarrow>
                 (case skip_ws r1 of
                    [] \<Rightarrow> None
                  | c # r2 \<Rightarrow>
                      if c \<noteq> CHR '':'' then None
                      else
                        (case json_value n r2 of
                           None \<Rightarrow> None
                         | Some (v, r3) \<Rightarrow>
                             (case skip_ws r3 of
                                [] \<Rightarrow> None
                              | d # r4 \<Rightarrow>
                                  if d = CHR '','' then
                                    json_members n (AList.update k v acc) r4
                                  else if d = CHR ''}'' then Some (AList.update k v acc, r4)
                                  else None)))))"

definition JSON_parse :: "string \<Rightarrow> js option" where
  "JSON_parse s =
     (case json_value (2 * length s + 2) s of
        None \<Rightarrow> None
      | Some (v, r) \<Rightarrow> if skip_ws r = [] then Some v else None)"

section \<open>The hosted store\<close>

text \<open>
  The screens talk to the store through the generated client:
  \<^verbatim>\<open>supabase.from(t).update(payload).eq(col, v)\<close> and \<^verbatim>\<open>....delete().eq(col, v)\<close>. A row is
  a JSON object. The store either refuses a write (the call yields an \<^verbatim>\<open>error\<close>, of
  which the screens read the \<^verbatim>\<open>message\<close>), and then nothing changes, or applies it to
  every row of the table that matches the filter. \<open>refuses\<close> is the store's answer to
  each write; \<open>sent\<close> keeps the writes that were issued, in order, each with the payload
  as the screen handed it to the client.
\<close>

type_synonym row = "(string \<times> js) list"

datatype request =
    Update string row string js
  | Delete string string js

record store =
  tables :: "string \<Rightarrow> row list"
  refuses :: "request \<Rightarrow> string option"
  sent :: "request list"

definition set_columns :: "row \<Rightarrow> row \<Rightarrow> row" where
  "set_columns payload r = foldl (\<lambda>r' (k, v). AList.update k v r') r payload"

fun apply_request :: "request \<Rightarrow> (string \<Rightarrow> row list) \<Rightarrow> (string \<Rightarrow> row list)" where
  "apply_request (Update t payload col v) tabs =
     tabs(t := map (\<lambda>r. if map_of r col = Some v then set_columns payload r else r) (tabs t))"
| "apply_request (Delete t col v) tabs =
     tabs(t := filter (\<lambda>r. map_of r col \<noteq> Some v) (tabs t))"

text \<open>Issuing a write: the error, if any, and the store afterwards.\<close>

definition send :: "request \<Rightarrow> 'a store_scheme \<Rightarrow> string option \<times> 'a store_scheme" where
  "send req st =
     (refuses st req,
      st\<lparr>tables := (if refuses st req = None then apply_request req (tables st) else tables st),
         sent := sent st @ [req]\<rparr>)"

section \<open>Invoice verification\<close>

text \<open>The \<^verbatim>\<open>Invoice\<close> interface; \<open>inv_id\<close> is its \<^verbatim>\<open>id\<close>. A nullable field is an option.\<close>

record Invoice =
  inv_id :: string
  invoice_number :: "string option"
  invoice_date :: "string option"
  vendor_name :: "string option"
  vendor_address :: "string option"
  vendor_tax_id :: "string option"
  vendor_pdv :: "string option"
  buyer_name :: "string option"
  buyer_address :: "string option"
  buyer_tax_id :: "string option"
  subtotal :: "jsnum option"
  tax_amount :: "jsnum option"
  total_amount :: "jsnum option"
  currency :: string
  line_items :: js
  "notes" :: "string option"
  file_url :: "string option"
  file_type :: string
  status :: string
  created_at :: string
  user_id :: string

subsection \<open>Status display\<close>

definition status_entry :: "string \<Rightarrow> string \<Rightarrow> string \<Rightarrow> js" where
  "status_entry l c b = JObj [(''label'', JStr l), (''color'', JStr c), (''bgColor'', JStr b)]"

definition statusConfig :: "(string \<times> js) list" where
  "statusConfig =
     [(''pending'', status_entry ''Na cekanju'' ''text-yellow-400'' ''bg-yellow-500/20''),
      (''processed'',
         status_entry ''Obradeno - ceka provjeru'' ''text-blue-400'' ''bg-blue-500/20''),
      (''verified'', status_entry ''Provjereno'' ''text-lime-400'' ''bg-lime-500/20''),
      (''sent_to_accountant'',
         status_entry ''Poslano racunovodji'' ''text-purple-400'' ''bg-purple-500/20''),
      (''error'', status_entry ''Greska'' ''text-red-400'' ''bg-red-500/20'')]"

text \<open>\<^verbatim>\<open>(invoice.status as InvoiceStatus) || 'pending'\<close>: the cast does nothing at run time.\<close>

definition currentStatus :: "Invoice \<Rightarrow> string" where
  "currentStatus invoice = (if status invoice \<noteq> [] then status invoice else ''pending'')"

text \<open>\<^verbatim>\<open>statusConfig[currentStatus] || statusConfig.pending\<close>\<close>

definition statusInfo :: "Invoice \<Rightarrow> js" where
  "statusInfo invoice =
     js_or (js_get statusConfig (currentStatus invoice)) (js_get statusConfig ''pending'')"

subsection \<open>Line items\<close>

text \<open>
  \<^verbatim>\<open>parseLineItems\<close>. \<^verbatim>\<open>JSON.parse\<close> belongs to the runtime; it is the parameter
  \<open>parse\<close>, with \<open>None\<close> for a thrown \<^verbatim>\<open>SyntaxError\<close> (the \<^verbatim>\<open>catch\<close> branch). The
  result is the sequence of items.
\<close>

definition parseLineItems :: "(string \<Rightarrow> js option) \<Rightarrow> js \<Rightarrow> js list" where
  "parseLineItems parse lineItems =
     (if \<not> truthy lineItems then []
      else case lineItems of
        JArr xs \<Rightarrow> xs
      | JStr s \<Rightarrow>
          (case parse s of
             None \<Rightarrow> []
           | Some parsed \<Rightarrow> (case parsed of JArr ys \<Rightarrow> ys | _ \<Rightarrow> []))
      | _ \<Rightarrow> [])"

subsection \<open>The form and its handlers\<close>

text \<open>
  The component's state: the edit form (\<^verbatim>\<open>formData\<close>), the two flags, and what the user
  has been shown (\<^verbatim>\<open>alert\<close>) and how often the page was asked to reload
  (\<^verbatim>\<open>router.refresh()\<close>).
\<close>

record formData =
  invoice_number :: string
  invoice_date :: string
  vendor_name :: string
  vendor_address :: string
  vendor_tax_id :: string
  vendor_pdv :: string
  buyer_name :: string
  buyer_address :: string
  buyer_tax_id :: string
  subtotal :: text_or_number
  tax_amount :: text_or_number
  total_amount :: text_or_number
  currency :: string
  "notes" :: string

record page =
  isEditing :: bool
  isSaving :: bool
  form :: formData
  alerts :: "string list"
  refreshes :: nat

text \<open>
  The payload of \<^verbatim>\<open>handleSave\<close>:
  \<^verbatim>\<open>{...formData, subtotal: Number(..), tax_amount: Number(..), total_amount: Number(..)}\<close>.
\<close>

definition save_payload :: "formData \<Rightarrow> row" where
  "save_payload fd =
     [(''invoice_number'', JStr (invoice_number fd)),
      (''invoice_date'', JStr (invoice_date fd)),
      (''vendor_name'', JStr (vendor_name fd)),
      (''vendor_address'', JStr (vendor_address fd)),
      (''vendor_tax_id'', JStr (vendor_tax_id fd)),
      (''vendor_pdv'', JStr (vendor_pdv fd)),
      (''buyer_name'', JStr (buyer_name fd)),
      (''buyer_address'', JStr (buyer_address fd)),
      (''buyer_tax_id'', JStr (buyer_tax_id fd)),
      (''subtotal'', JNum (Number (subtotal fd))),
      (''tax_amount'', JNum (Number (tax_amount fd))),
      (''total_amount'', JNum (Number (total_amount fd))),
      (''currency'', JStr (currency fd)),
      (''notes'', JStr (notes fd))]"

definition handleSave :: "Invoice \<Rightarrow> page \<times> store \<Rightarrow> page \<times> store" where
  "handleSave invoice = (\<lambda>(pg, st).
     let pg1 = pg\<lparr>isSaving := True\<rparr>;
         (err, st') = send (Update ''invoices'' (save_payload (form pg1)) ''id''
                             (JStr (inv_id invoice))) st
     in if err = None
        then (pg1\<lparr>isEditing := False, refreshes := Suc (refreshes pg1), isSaving := False\<rparr>, st')
        else (pg1\<lparr>alerts := alerts pg1 @ [''Greska pri spremanju''], isSaving := False\<rparr>, st'))"

definition handleVerify :: "Invoice \<Rightarrow> page \<times> store \<Rightarrow> page \<times> store" where
  "handleVerify invoice = (\<lambda>(pg, st).
     let pg1 = pg\<lparr>isSaving := True\<rparr>;
         (err, st') = send (Update ''invoices'' [(''status'', JStr ''verified'')] ''id''
                             (JStr (inv_id invoice))) st
     in if err = None
        then (pg1\<lparr>refreshes := Suc (refreshes pg1), isSaving := False\<rparr>, st')
        else (pg1\<lparr>alerts := alerts pg1 @ [''Greska pri verifikaciji''], isSaving := False\<rparr>, st'))"

definition handleSendToAccountant :: "Invoice \<Rightarrow> page \<times> store \<Rightarrow> page \<times> store" where
  "handleSendToAccountant invoice = (\<lambda>(pg, st).
     let pg1 = pg\<lparr>isSaving := True\<rparr>;
         (err, st') = send (Update ''invoices'' [(''status'', JStr ''sent_to_accountant'')] ''id''
                             (JStr (inv_id invoice))) st
     in if err = None
        then (pg1\<lparr>refreshes := Suc (refreshes pg1), isSaving := False\<rparr>, st')
        else (pg1\<lparr>alerts := alerts pg1 @ [''Greska pri slanju''], isSaving := False\<rparr>, st'))"

text \<open>The buttons the action bar renders, left to right.\<close>

datatype action = Cancel | Save | Edit | Verify | SendToAccountant

definition actionButtons :: "page \<Rightarrow> Invoice \<Rightarrow> action list" where
  "actionButtons pg invoice =
     (if isEditing pg then [Cancel, Save]
      else [Edit]
           @ (if currentStatus invoice = ''processed'' then [Verify] else [])
           @ (if currentStatus invoice = ''verified'' then [SendToAccountant] else []))"

section \<open>Organization context\<close>

text \<open>
  The \<^verbatim>\<open>Organization\<close> interface (\<open>org_id\<close> is its \<^verbatim>\<open>id\<close>), and
  \<^verbatim>\<open>OrganizationWithRole\<close>, which extends it by the caller's role. An optional or nullable
  field is an option; \<^verbatim>\<open>settings\<close> is a JSON object, or null. The id is an option as
  well: the interface declares a string, but the list that \<^verbatim>\<open>fetchOrganizations\<close> builds
  can hold an entry without one (see \<open>role_only\<close>).
\<close>

record Organization =
  org_id :: "string option"
  name :: string
  slug :: string
  logo_url :: "string option"
  accountant_email :: "string option"
  settings :: "(string \<times> js) list option"
  created_at :: string
  pib :: "string option"
  pdv_number :: "string option"
  address :: "string option"
  city :: "string option"
  postal_code :: "string option"
  country :: "string option"
  phone :: "string option"
  email :: "string option"
  owner_name :: "string option"
  is_pdv_registered :: "bool option"

record OrganizationWithRole = Organization +
  role :: string

text \<open>\<^verbatim>\<open>o.id\<close> as the runtime reads it.\<close>

definition id_of :: "'a Organization_scheme \<Rightarrow> js" where
  "id_of org = (case org_id org of None \<Rightarrow> JUndefined | Some s \<Rightarrow> JStr s)"

text \<open>
  A row of the membership query: the role and the embedded organization, which arrives as
  the object, as an array of objects (the source takes the first element), or as null.
\<close>

datatype relation = Absent | Single Organization | Several "Organization list"

datatype membership = Membership (m_role: string) (m_organization: relation)

record backend = store +
  session :: "string option"
  memberships :: "string \<Rightarrow> membership list option"

record OrganizationContext =
  currentOrganization :: "OrganizationWithRole option"
  organizations :: "OrganizationWithRole list"
  isLoading :: bool

text \<open>\<^verbatim>\<open>{...org, role: m.role}\<close>\<close>

definition with_role :: "Organization \<Rightarrow> string \<Rightarrow> OrganizationWithRole" where
  "with_role org r = Organization.extend org (OrganizationWithRole.fields r)"

text \<open>
  \<^verbatim>\<open>{...undefined, role: m.role}\<close>: the entry built from an empty array. An empty array is
  truthy, so the filter keeps the row, and its first element is undefined. The entry has
  the role and nothing else: no id and no optional attribute. Its three text attributes
  are undefined too; the screens read none of them but \<^verbatim>\<open>name\<close>, and that through
  \<^verbatim>\<open>|| ''\<close>, so they are kept as the empty text.
\<close>

definition role_only :: "string \<Rightarrow> OrganizationWithRole" where
  "role_only r =
     \<lparr>org_id = None, name = [], slug = [], logo_url = None, accountant_email = None,
      settings = None, created_at = [], pib = None, pdv_number = None, address = None,
      city = None, postal_code = None, country = None, phone = None, email = None,
      owner_name = None, is_pdv_registered = None, role = r\<rparr>"

text \<open>
  \<^verbatim>\<open>.filter(m => m.organization).map(...)\<close>: a row without organization is dropped
  (\<open>None\<close>); every other row gives an entry.
\<close>

fun organization_of :: "membership \<Rightarrow> OrganizationWithRole option" where
  "organization_of (Membership r Absent) = None"
| "organization_of (Membership r (Single org)) = Some (with_role org r)"
| "organization_of (Membership r (Several [])) = Some (role_only r)"
| "organization_of (Membership r (Several (org # rest))) = Some (with_role org r)"

text \<open>
  \<^verbatim>\<open>fetchOrganizations\<close>: no user, a failed query (\<open>None\<close>) and a query without data all
  give the empty list.
\<close>

definition fetchOrganizations :: "backend \<Rightarrow> OrganizationWithRole list" where
  "fetchOrganizations b =
     (case session b of
        None \<Rightarrow> []
      | Some user \<Rightarrow>
          (case memberships b user of
             None \<Rightarrow> []
           | Some ms \<Rightarrow> List.map_filter organization_of ms))"

text \<open>\<^verbatim>\<open>.single()\<close>: the one row of the answer; anything else is an error without data.\<close>

fun single :: "row list \<Rightarrow> row option" where
  "single [r] = Some r"
| "single rs = None"

definition select_eq :: "string \<Rightarrow> js \<Rightarrow> row list \<Rightarrow> row list" where
  "select_eq col v rows = filter (\<lambda>r. map_of r col = Some v) rows"

text \<open>\<^verbatim>\<open>getCurrentOrgFromProfile\<close>: \<^verbatim>\<open>profile?.current_organization_id || null\<close>.\<close>

definition getCurrentOrgFromProfile :: "backend \<Rightarrow> js" where
  "getCurrentOrgFromProfile b =
     (case session b of
        None \<Rightarrow> JNull
      | Some user \<Rightarrow>
          (case single (select_eq ''id'' (JStr user) (tables b ''profiles'')) of
             None \<Rightarrow> JNull
           | Some profile \<Rightarrow> js_or (js_get profile ''current_organization_id'') JNull))"

text \<open>
  The body of a request is the payload as JSON, and JSON has no undefined: a key whose
  value is undefined is left out.
\<close>

definition request_body :: "row \<Rightarrow> row" where
  "request_body payload = filter (\<lambda>(k, v). v \<noteq> JUndefined) payload"

text \<open>
  \<^verbatim>\<open>saveCurrentOrgToProfile\<close>: without a user nothing is written; the outcome of the
  write is not looked at. The parameter is declared a string; \<^verbatim>\<open>refreshOrganizations\<close>
  passes \<^verbatim>\<open>orgs[0].id\<close>, which is undefined for an entry without id.
\<close>

definition saveCurrentOrgToProfile :: "js \<Rightarrow> backend \<Rightarrow> backend" where
  "saveCurrentOrgToProfile orgId b =
     (case session b of
        None \<Rightarrow> b
      | Some user \<Rightarrow>
          snd (send (Update ''profiles'' (request_body [(''current_organization_id'', orgId)])
                       ''id'' (JStr user)) b))"

text \<open>\<^verbatim>\<open>orgs.find(o => o.id === savedOrgId)\<close>\<close>

definition refreshOrganizations :: "OrganizationContext \<times> backend \<Rightarrow> OrganizationContext \<times> backend" where
  "refreshOrganizations = (\<lambda>(ctx, b).
     let ctx1 = ctx\<lparr>isLoading := True\<rparr>;
         orgs = fetchOrganizations b;
         ctx2 = ctx1\<lparr>organizations := orgs\<rparr>
     in case orgs of
          [] \<Rightarrow> (ctx2\<lparr>currentOrganization := None, isLoading := False\<rparr>, b)
        | first # rest \<Rightarrow>
            (let savedOrgId = getCurrentOrgFromProfile b
             in case find (\<lambda>e. id_of e = savedOrgId) orgs of
                  Some savedOrg \<Rightarrow>
                    (ctx2\<lparr>currentOrganization := Some savedOrg, isLoading := False\<rparr>, b)
                | None \<Rightarrow>
                    (ctx2\<lparr>currentOrganization := Some first, isLoading := False\<rparr>,
                     saveCurrentOrgToProfile (id_of first) b)))"

text \<open>\<^verbatim>\<open>organizations.find(o => o.id === orgId)\<close>, with \<^verbatim>\<open>orgId\<close> a string.\<close>

definition switchOrganization ::
  "string \<Rightarrow> OrganizationContext \<times> backend \<Rightarrow> OrganizationContext \<times> backend" where
  "switchOrganization orgId = (\<lambda>(ctx, b).
     case find (\<lambda>e. id_of e = JStr orgId) (organizations ctx) of
       None \<Rightarrow> (ctx, b)
     | Some org \<Rightarrow>
         (ctx\<lparr>currentOrganization := Some org\<rparr>, saveCurrentOrgToProfile (JStr orgId) b))"

section \<open>Team members\<close>

text \<open>The \<^verbatim>\<open>Member\<close> interface of the members page (\<open>member_id\<close> is its \<^verbatim>\<open>id\<close>).\<close>

record Member =
  member_id :: string
  member_user_id :: string
  member_role :: string
  member_created_at :: string
  user_email :: string
  user_full_name :: "string option"

text \<open>
  What \<^verbatim>\<open>handleRemoveMember\<close> does towards the user and the page, in order: a toast, the
  \<^verbatim>\<open>confirm\<close> dialog, the call of \<^verbatim>\<open>loadMembers\<close> (the only place that sets the list
  of members).
\<close>

datatype event = ToastError string | ToastSuccess string | ConfirmDialog | LoadMembers

text \<open>
  \<open>confirmed\<close> is the user's answer to the dialog, should it be shown.
  \<^verbatim>\<open>error.message || '...'\<close> shows the store's message unless it is empty.
\<close>

definition handleRemoveMember :: "bool \<Rightarrow> Member \<Rightarrow> store \<Rightarrow> event list \<times> store" where
  "handleRemoveMember confirmed member st =
     (if member_role member = ''owner'' then ([ToastError ''Ne mozete ukloniti vlasnika''], st)
      else if \<not> confirmed then ([ConfirmDialog], st)
      else
        (let (err, st') = send (Delete ''organization_members'' ''id''
                                  (JStr (member_id member))) st
         in case err of
              None \<Rightarrow> ([ConfirmDialog, ToastSuccess ''Clan uspjesno uklonjen'', LoadMembers], st')
            | Some message \<Rightarrow>
                ([ConfirmDialog,
                  ToastError (if message \<noteq> [] then message
                              else ''Greska pri uklanjanju clana'')], st')))"

section \<open>Company data: first-class columns and the settings map\<close>

definition nullable :: "string option \<Rightarrow> js" where
  "nullable v = (case v of None \<Rightarrow> JNull | Some s \<Rightarrow> JStr s)"

text \<open>
  The composite address: \<^verbatim>\<open>org.address\<close>, then \<^verbatim>\<open>', ' + city\<close> and
  \<^verbatim>\<open>' ' + postal_code\<close> where these are truthy.
\<close>

definition text_of :: "string option \<Rightarrow> string" where
  "text_of v = (case v of None \<Rightarrow> [] | Some s \<Rightarrow> s)"

definition composite_address :: "'a Organization_scheme \<Rightarrow> string" where
  "composite_address org =
     text_of (address org)
     @ (if truthy (nullable (city org)) then '', '' @ text_of (city org) else [])
     @ (if truthy (nullable (postal_code org)) then '' '' @ text_of (postal_code org) else [])"

text \<open>
  The settings page's effect on \<^verbatim>\<open>currentOrganization\<close>: the form it sets
  (\<^verbatim>\<open>settings = currentOrganization.settings || {}\<close>).
\<close>

definition SettingsPage_formData :: "OrganizationWithRole \<Rightarrow> row" where
  "SettingsPage_formData org =
     (let settings = (case settings org of None \<Rightarrow> [] | Some ps \<Rightarrow> ps)
      in [(''name'', js_or (JStr (name org)) (JStr [])),
          (''pib'', js_or (nullable (pib org)) (js_or (js_get settings ''pib'') (JStr []))),
          (''pdv_number'',
             js_or (nullable (pdv_number org)) (js_or (js_get settings ''pdv_number'') (JStr []))),
          (''address'',
             (if truthy (nullable (address org)) then JStr (composite_address org)
              else js_or (js_get settings ''address'') (JStr []))),
          (''email'', js_or (nullable (email org)) (js_or (js_get settings ''email'') (JStr []))),
          (''phone'', js_or (nullable (phone org)) (js_or (js_get settings ''phone'') (JStr []))),
          (''accountant_email'', js_or (nullable (accountant_email org)) (JStr []))])"

text \<open>The form starts empty and is left alone while there is no current organization.\<close>

definition SettingsPage_effect :: "OrganizationWithRole option \<Rightarrow> row \<Rightarrow> row" where
  "SettingsPage_effect cur formData =
     (case cur of None \<Rightarrow> formData | Some org \<Rightarrow> SettingsPage_formData org)"

text \<open>\<^verbatim>\<open>org?.settings?.key\<close>\<close>

definition settings_get :: "(string \<times> js) list option \<Rightarrow> string \<Rightarrow> js" where
  "settings_get s key = (case s of None \<Rightarrow> JUndefined | Some ps \<Rightarrow> js_get ps key)"

text \<open>\<^verbatim>\<open>companyData\<close> of the invoice verification component (\<^verbatim>\<open>org\<close> may be null).\<close>

definition companyData :: "OrganizationWithRole option \<Rightarrow> row" where
  "companyData cur =
     (case cur of
        None \<Rightarrow>
          [(''name'', JStr []), (''pib'', JStr []), (''pdv_number'', JStr []),
           (''address'', JStr []), (''email'', JStr []), (''phone'', JStr [])]
      | Some org \<Rightarrow>
          [(''name'', js_or (JStr (name org)) (JStr [])),
           (''pib'',
              js_or (nullable (pib org)) (js_or (settings_get (settings org) ''pib'') (JStr []))),
           (''pdv_number'',
              js_or (nullable (pdv_number org))
                (js_or (settings_get (settings org) ''pdv_number'') (JStr []))),
           (''address'',
              (if truthy (nullable (address org)) then JStr (composite_address org)
               else js_or (settings_get (settings org) ''address'') (JStr []))),
           (''email'',
              js_or (nullable (email org))
                (js_or (settings_get (settings org) ''email'') (JStr []))),
           (''phone'',
              js_or (nullable (phone org))
                (js_or (settings_get (settings org) ''phone'') (JStr [])))])"

text \<open>
  The five keys the two forms merge, and the first-class column that goes with each.
\<close>

definition merged_keys :: "string list" where
  "merged_keys = [''pib'', ''pdv_number'', ''address'', ''email'', ''phone'']"

definition first_class :: "string \<Rightarrow> 'a Organization_scheme \<Rightarrow> string option" where
  "first_class key org =
     (if key = ''pib'' then pib org
      else if key = ''pdv_number'' then pdv_number org
      else if key = ''address'' then address org
      else if key = ''email'' then email org
      else if key = ''phone'' then phone org
      else None)"

section \<open>Sample data\<close>

definition sample_invoice :: Invoice where
  \<open>sample_invoice =
     \<lparr>inv_id = ''inv-1'', invoice_number = Some ''2024-001'', invoice_date = None,
      vendor_name = Some ''Vendor'', vendor_address = None, vendor_tax_id = None,
      vendor_pdv = None, buyer_name = None, buyer_address = None, buyer_tax_id = None,
      subtotal = Some (Fin 100), tax_amount = Some (Fin 21), total_amount = Some (Fin 121),
      currency = ''EUR'',
      line_items = JStr ''[{"description":"A","amount":10}]'',
      notes = None, file_url = None, file_type = ''pdf'', status = ''processed'',
      created_at = ''2024-01-01'', user_id = ''user-1''\<rparr>\<close>

definition sample_form :: formData where
  "sample_form =
     \<lparr>invoice_number = ''2024-001'', invoice_date = [], vendor_name = ''Vendor'',
      vendor_address = [], vendor_tax_id = [], vendor_pdv = [], buyer_name = [],
      buyer_address = [], buyer_tax_id = [], subtotal = Numeric (Fin 100),
      tax_amount = Numeric (Fin 21), total_amount = Numeric (Fin 121), currency = ''EUR'',
      notes = []\<rparr>"

definition sample_page :: page where
  "sample_page =
     \<lparr>isEditing = False, isSaving = False, form = sample_form, alerts = [], refreshes = 0\<rparr>"

definition sample_rows :: "row list" where
  "sample_rows =
     [[(''id'', JStr ''inv-1''), (''invoice_number'', JStr ''2024-001''),
       (''status'', JStr ''processed''), (''total_amount'', JNum (Fin 121))],
      [(''id'', JStr ''inv-2''), (''invoice_number'', JNull),
       (''status'', JStr ''pending''), (''total_amount'', JNull)]]"

definition sample_store :: store where
  "sample_store =
     \<lparr>tables = (\<lambda>t. if t = ''invoices'' then sample_rows else []),
      refuses = (\<lambda>req. None), sent = []\<rparr>"

definition sample_org :: Organization where
  "sample_org =
     \<lparr>org_id = Some ''org-a'', name = ''Alfa'', slug = ''alfa'', logo_url = None,
      accountant_email = None,
      settings = Some [(''pib'', JStr ''999''), (''address'', JStr ''Main St''),
                       (''phone'', JStr ''033 123 456'')],
      created_at = ''2024-01-01'', pib = Some ''123'', pdv_number = None, address = None,
      city = None, postal_code = None, country = None, phone = Some [], email = None,
      owner_name = None, is_pdv_registered = None\<rparr>"

definition sample_current :: OrganizationWithRole where
  "sample_current = with_role sample_org ''owner''"

definition sample_other :: OrganizationWithRole where
  "sample_other = with_role (sample_org\<lparr>org_id := Some ''org-b'', name := ''Beta''\<rparr>) ''employee''"

definition sample_memberships :: "membership list" where
  "sample_memberships =
     [Membership ''owner'' (Single sample_org),
      Membership ''employee'' Absent,
      Membership ''employee'' (Several [sample_org\<lparr>org_id := Some ''org-b'', name := ''Beta''\<rparr>]),
      Membership ''employee'' (Several [])]"

text \<open>
  A signed-in user with two organizations and a membership row whose organization is an
  empty array; the profile names the second organization.
\<close>

definition sample_backend :: backend where
  "sample_backend =
     \<lparr>tables = (\<lambda>t. if t = ''profiles''
                      then [[(''id'', JStr ''user-1''), (''full_name'', JStr ''Ana''),
                             (''current_organization_id'', JStr ''org-b'')]]
                      else []),
      refuses = (\<lambda>req. None), sent = [],
      session = Some ''user-1'',
      memberships = (\<lambda>u. if u = ''user-1'' then Some sample_memberships else Some [])\<rparr>"

text \<open>The same user, whose profile names an organization that is no longer in the list.\<close>

definition stale_backend :: backend where
  "stale_backend =
     sample_backend\<lparr>tables := (\<lambda>t. if t = ''profiles''
                      then [[(''id'', JStr ''user-1''), (''full_name'', JStr ''Ana''),
                             (''current_organization_id'', JStr ''org-z'')]]
                      else [])\<rparr>"

text \<open>The same again, with a store that refuses every write.\<close>

definition refusing_backend :: backend where
  "refusing_backend = stale_backend\<lparr>refuses := (\<lambda>req. Some ''permission denied'')\<rparr>"

definition sample_context :: OrganizationContext where
  "sample_context = \<lparr>currentOrganization = None, organizations = [], isLoading = True\<rparr>"

text \<open>The provider after a load, as \<^verbatim>\<open>switchOrganization\<close> finds it.\<close>

definition loaded_context :: OrganizationContext where
  "loaded_context =
     \<lparr>currentOrganization = Some sample_current,
      organizations = [sample_current, sample_other], isLoading = False\<rparr>"

definition sample_member :: Member where
  "sample_member =
     \<lparr>member_id = ''m-2'', member_user_id = ''user-2'', member_role = ''employee'',
      member_created_at = ''2024-02-01'', user_email = ''korisnik@email.com'',
      user_full_name = None\<rparr>"

definition sample_members_store :: store where
  "sample_members_store =
     \<lparr>tables = (\<lambda>t. if t = ''organization_members''
                      then [[(''id'', JStr ''m-1''), (''user_id'', JStr ''user-1''),
                             (''role'', JStr ''owner'')],
                            [(''id'', JStr ''m-2''), (''user_id'', JStr ''user-2''),
                             (''role'', JStr ''employee'')]]
                      else []),
      refuses = (\<lambda>req. None), sent = []\<rparr>"


section \<open>Line items\<close>

lemma parseLineItems_other:
  "\<not> isArray v \<Longrightarrow> \<not> isString v \<Longrightarrow> parseLineItems parse v = []"
  by (cases v) (simp_all add: parseLineItems_def)

text \<open>
  Claim C1. Whatever the runtime's \<^verbatim>\<open>JSON.parse\<close> is, provided it refuses the empty text
  (which is not JSON): \<^verbatim>\<open>parseLineItems\<close> returns a native array as it is; for a string
  that parses to an array it returns the parsed array; for null, for undefined, for a
  string that does not parse, and for a string that parses to something other than an
  array, it returns the empty sequence.
\<close>

theorem parseLineItems_cases:
  assumes "parse [] = None"
  shows "parseLineItems parse (JArr xs) = xs
    \<and> (parse s1 = Some (JArr ys) \<longrightarrow> parseLineItems parse (JStr s1) = ys)
    \<and> parseLineItems parse JNull = []
    \<and> parseLineItems parse JUndefined = []
    \<and> (parse s2 = None \<longrightarrow> parseLineItems parse (JStr s2) = [])
    \<and> (parse s3 = Some v \<and> \<not> isArray v \<longrightarrow> parseLineItems parse (JStr s3) = [])"
proof -
  have arr: "parse s1 = Some (JArr ys) \<Longrightarrow> parseLineItems parse (JStr s1) = ys"
    using assms by (cases "s1 = []") (simp_all add: parseLineItems_def)
  have bad: "parse s2 = None \<Longrightarrow> parseLineItems parse (JStr s2) = []"
    by (simp add: parseLineItems_def)
  have other: "parse s3 = Some v \<Longrightarrow> \<not> isArray v \<Longrightarrow> parseLineItems parse (JStr s3) = []"
    by (cases v) (simp_all add: parseLineItems_def)
  show ?thesis
    using arr bad other by (simp add: parseLineItems_def)
qed

text \<open>
  The second end-to-end scenario, run with the reading of \<^verbatim>\<open>JSON.parse\<close> above: the
  stored text parses to one item with description \<^verbatim>\<open>A\<close> and amount 10; a truncated text
  and an object give no items.
\<close>

theorem parseLineItems_cases_witness:
  \<open>JSON_parse [] = None
   \<and> parseLineItems JSON_parse (JArr [JStr ''x'', JNull]) = [JStr ''x'', JNull]
   \<and> JSON_parse ''[{"description":"A","amount":10}]''
       = Some (JArr [JObj [(''description'', JStr ''A''), (''amount'', JNum (Fin 10))]])
   \<and> parseLineItems JSON_parse (line_items sample_invoice)
       = [JObj [(''description'', JStr ''A''), (''amount'', JNum (Fin 10))]]
   \<and> JSON_parse ''[1, 2'' = None
   \<and> parseLineItems JSON_parse (JStr ''[1, 2'') = []
   \<and> JSON_parse ''{"items":[]}'' = Some (JObj [(''items'', JArr [])])
   \<and> parseLineItems JSON_parse (JStr ''{"items":[]}'') = []\<close>
proof -
  have e: "JSON_parse [] = None"
    by code_simp
  have a: \<open>JSON_parse ''[{"description":"A","amount":10}]''
       = Some (JArr [JObj [(''description'', JStr ''A''), (''amount'', JNum (Fin 10))]])\<close>
    by code_simp
  have b: "JSON_parse ''[1, 2'' = None"
    by code_simp
  have c: \<open>JSON_parse ''{"items":[]}'' = Some (JObj [(''items'', JArr [])])\<close>
    by code_simp
  show ?thesis
    using parseLineItems_cases [of JSON_parse "[JStr ''x'', JNull]"
        \<open>''[{"description":"A","amount":10}]''\<close>
        "[JObj [(''description'', JStr ''A''), (''amount'', JNum (Fin 10))]]"
        "''[1, 2''" \<open>''{"items":[]}''\<close> "JObj [(''items'', JArr [])]", OF e] e a b c
    by (simp add: sample_invoice_def)
qed

section \<open>Status display and actions\<close>

lemma statusInfo_defined:
  "s \<in> {''pending'', ''processed'', ''verified'', ''sent_to_accountant'', ''error''} \<Longrightarrow>
   statusInfo (invoice\<lparr>status := s\<rparr>) = the (map_of statusConfig s)"
  by (auto simp: statusInfo_def currentStatus_def js_get_def js_or_def statusConfig_def
      status_entry_def)

text \<open>
  An unrecognized status is shown as \<^verbatim>\<open>pending\<close> unless it is the name of a member that
  every object inherits.
\<close>

lemma statusInfo_unrecognized:
  assumes "s \<notin> {''pending'', ''processed'', ''verified'', ''sent_to_accountant'', ''error''}"
    and "s \<notin> set Object_prototype" and "s \<noteq> ''__proto__''"
  shows "statusInfo (invoice\<lparr>status := s\<rparr>) = statusInfo (invoice\<lparr>status := ''pending''\<rparr>)"
proof -
  have "map_of statusConfig s = None"
    using assms(1) by (simp add: statusConfig_def)
  then show ?thesis
    using assms(2,3)
    by (simp add: statusInfo_def currentStatus_def js_get_def js_or_def)
qed

text \<open>
  Claim C2. The claim is that every status outside the five states is displayed as
  \<^verbatim>\<open>pending\<close>. For the stored status \<^verbatim>\<open>constructor\<close>, which is none of the five, the
  lookup \<^verbatim>\<open>statusConfig[currentStatus]\<close> finds the inherited \<^verbatim>\<open>Object.prototype.constructor\<close>;
  that function is truthy, so the fallback \<^verbatim>\<open>|| statusConfig.pending\<close> is not taken and
  \<^verbatim>\<open>statusInfo\<close> is not the pending entry.
\<close>

theorem statusInfo_inherited_name:
  "status (sample_invoice\<lparr>status := ''constructor''\<rparr>)
      \<notin> {''pending'', ''processed'', ''verified'', ''sent_to_accountant'', ''error''}
   \<and> statusInfo (sample_invoice\<lparr>status := ''constructor''\<rparr>) = JFun ''constructor''
   \<and> statusInfo (sample_invoice\<lparr>status := ''pending''\<rparr>)
       = status_entry ''Na cekanju'' ''text-yellow-400'' ''bg-yellow-500/20''
   \<and> statusInfo (sample_invoice\<lparr>status := ''constructor''\<rparr>)
       \<noteq> statusInfo (sample_invoice\<lparr>status := ''pending''\<rparr>)"
  by (simp add: statusInfo_def currentStatus_def js_get_def js_or_def statusConfig_def
      Object_prototype_def status_entry_def)

text \<open>
  Claim C3, as amended. The action bar offers \<^verbatim>\<open>verify\<close> exactly when the form is not in
  edit mode and the status is \<^verbatim>\<open>processed\<close>, and \<^verbatim>\<open>sendToAccountant\<close> exactly when the
  form is not in edit mode and the status is \<^verbatim>\<open>verified\<close>; in edit mode, and in every
  other status, neither is offered.
\<close>

theorem actionButtons_available:
  "(Verify \<in> set (actionButtons pg invoice))
      = (\<not> isEditing pg \<and> status invoice = ''processed'')
   \<and> (SendToAccountant \<in> set (actionButtons pg invoice))
      = (\<not> isEditing pg \<and> status invoice = ''verified'')"
  by (auto simp: actionButtons_def currentStatus_def)

text \<open>
  Claim C3 as stated fails while the form is being edited: the invoice is \<^verbatim>\<open>processed\<close>
  and \<^verbatim>\<open>verify\<close> is not offered; it is \<^verbatim>\<open>verified\<close> and \<^verbatim>\<open>sendToAccountant\<close> is not
  offered.
\<close>

theorem actionButtons_editing_counterexample:
  "status sample_invoice = ''processed''
   \<and> Verify \<notin> set (actionButtons (sample_page\<lparr>isEditing := True\<rparr>) sample_invoice)
   \<and> status (sample_invoice\<lparr>status := ''verified''\<rparr>) = ''verified''
   \<and> SendToAccountant
        \<notin> set (actionButtons (sample_page\<lparr>isEditing := True\<rparr>)
                 (sample_invoice\<lparr>status := ''verified''\<rparr>))"
  by (simp add: actionButtons_def sample_invoice_def sample_page_def)

section \<open>Verifying an invoice\<close>

lemma set_columns_single: "set_columns [(k, v)] r = AList.update k v r"
  by (simp add: set_columns_def)

lemma handleVerify_store:
  assumes "refuses st (Update ''invoices'' [(''status'', JStr ''verified'')] ''id''
                     (JStr (inv_id invoice))) = None"
  shows "snd (handleVerify invoice (pg, st))
    = st\<lparr>tables := (tables st)(''invoices'' :=
             map (\<lambda>r. if map_of r ''id'' = Some (JStr (inv_id invoice))
                       then AList.update ''status'' (JStr ''verified'') r else r)
               (tables st ''invoices'')),
          sent := sent st @ [Update ''invoices'' [(''status'', JStr ''verified'')] ''id''
                               (JStr (inv_id invoice))]\<rparr>"
  using assms by (simp add: handleVerify_def send_def set_columns_single cong: if_cong)

lemma handleVerify_page:
  assumes "refuses st (Update ''invoices'' [(''status'', JStr ''verified'')] ''id''
                     (JStr (inv_id invoice))) = None"
  shows "fst (handleVerify invoice (pg, st))
    = pg\<lparr>isSaving := True, refreshes := Suc (refreshes pg), isSaving := False\<rparr>"
  using assms by (simp add: handleVerify_def send_def)

text \<open>
  Claim C4. When the store accepts the write, \<^verbatim>\<open>handleVerify\<close> issues one update, whose
  payload is the status field alone and whose filter is the invoice's id. In the table of
  invoices every row with that id gets status \<^verbatim>\<open>verified\<close> and keeps every other column;
  every other row, and every other table, is as before. The form is not touched and no
  alert is shown.
\<close>

theorem handleVerify_frame:
  assumes ok: "refuses st (Update ''invoices'' [(''status'', JStr ''verified'')] ''id''
                     (JStr (inv_id invoice))) = None"
  shows "sent (snd (handleVerify invoice (pg, st)))
           = sent st @ [Update ''invoices'' [(''status'', JStr ''verified'')] ''id''
                          (JStr (inv_id invoice))]
    \<and> length (tables (snd (handleVerify invoice (pg, st))) ''invoices'')
           = length (tables st ''invoices'')
    \<and> (\<forall>i < length (tables st ''invoices'').
          (map_of (tables st ''invoices'' ! i) ''id'' = Some (JStr (inv_id invoice)) \<longrightarrow>
             map_of (tables (snd (handleVerify invoice (pg, st))) ''invoices'' ! i) ''status''
               = Some (JStr ''verified'')
             \<and> (\<forall>col. col \<noteq> ''status'' \<longrightarrow>
                   map_of (tables (snd (handleVerify invoice (pg, st))) ''invoices'' ! i) col
                     = map_of (tables st ''invoices'' ! i) col))
          \<and> (map_of (tables st ''invoices'' ! i) ''id'' \<noteq> Some (JStr (inv_id invoice)) \<longrightarrow>
               tables (snd (handleVerify invoice (pg, st))) ''invoices'' ! i
                 = tables st ''invoices'' ! i))
    \<and> (\<forall>t. t \<noteq> ''invoices'' \<longrightarrow>
           tables (snd (handleVerify invoice (pg, st))) t = tables st t)
    \<and> alerts (fst (handleVerify invoice (pg, st))) = alerts pg
    \<and> form (fst (handleVerify invoice (pg, st))) = form pg"
  by (simp add: handleVerify_store [OF ok] handleVerify_page [OF ok] update_conv')

theorem handleVerify_frame_witness:
  "refuses sample_store (Update ''invoices'' [(''status'', JStr ''verified'')] ''id''
       (JStr (inv_id sample_invoice))) = None
   \<and> sent (snd (handleVerify sample_invoice (sample_page, sample_store)))
       = [Update ''invoices'' [(''status'', JStr ''verified'')] ''id'' (JStr ''inv-1'')]
   \<and> tables (snd (handleVerify sample_invoice (sample_page, sample_store))) ''invoices''
       = [[(''id'', JStr ''inv-1''), (''invoice_number'', JStr ''2024-001''),
           (''status'', JStr ''verified''), (''total_amount'', JNum (Fin 121))],
          [(''id'', JStr ''inv-2''), (''invoice_number'', JNull),
           (''status'', JStr ''pending''), (''total_amount'', JNull)]]"
proof -
  have ok: "refuses sample_store (Update ''invoices'' [(''status'', JStr ''verified'')] ''id''
       (JStr (inv_id sample_invoice))) = None"
    by (simp add: sample_store_def)
  have rows: "tables (snd (handleVerify sample_invoice (sample_page, sample_store))) ''invoices''
       = [[(''id'', JStr ''inv-1''), (''invoice_number'', JStr ''2024-001''),
           (''status'', JStr ''verified''), (''total_amount'', JNum (Fin 121))],
          [(''id'', JStr ''inv-2''), (''invoice_number'', JNull),
           (''status'', JStr ''pending''), (''total_amount'', JNull)]]"
    by (simp add: handleVerify_store [OF ok])
       (simp add: sample_store_def sample_rows_def sample_invoice_def)
  show ?thesis
    using handleVerify_frame [OF ok, of sample_page] ok rows
    by (simp add: sample_store_def sample_invoice_def)
qed

section \<open>The current organization\<close>

text \<open>
  The store is taken as it is for the length of one operation: what
  \<^verbatim>\<open>fetchOrganizations\<close> and \<^verbatim>\<open>getCurrentOrgFromProfile\<close> read is the same session and
  the same tables.
\<close>

lemma fetch_nonempty_session:
  "fetchOrganizations b \<noteq> [] \<Longrightarrow> \<exists>user. session b = Some user"
  by (cases "session b") (simp_all add: fetchOrganizations_def)

lemma find_Some_mem: "find P xs = Some x \<Longrightarrow> x \<in> set xs \<and> P x"
  by (induction xs) (auto split: if_splits)

lemma find_None_absent: "(find (\<lambda>e. f e = k) xs = None) = (k \<notin> f ` set xs)"
  by (auto simp: find_None_iff)

lemma id_of_Some: "org_id org = Some s \<Longrightarrow> id_of org = JStr s"
  by (simp add: id_of_def)

lemma saved_defined: "getCurrentOrgFromProfile b \<noteq> JUndefined"
  by (auto simp: getCurrentOrgFromProfile_def js_or_def split: option.splits)

subsection \<open>What \<^verbatim>\<open>saveCurrentOrgToProfile\<close> does to the store\<close>

lemma saveCurrentOrgToProfile_no_session:
  "session b = None \<Longrightarrow> saveCurrentOrgToProfile orgId b = b"
  by (simp add: saveCurrentOrgToProfile_def)

lemma saveCurrentOrgToProfile_session:
  "session (saveCurrentOrgToProfile orgId b) = session b"
  by (simp add: saveCurrentOrgToProfile_def send_def split: option.splits)

lemma saveCurrentOrgToProfile_sent:
  "session b = Some user \<Longrightarrow>
   sent (saveCurrentOrgToProfile (JStr orgId) b)
     = sent b @ [Update ''profiles'' [(''current_organization_id'', JStr orgId)] ''id''
                   (JStr user)]"
  by (simp add: saveCurrentOrgToProfile_def send_def request_body_def)

lemma saveCurrentOrgToProfile_tables:
  "session b = Some user \<Longrightarrow>
   tables (saveCurrentOrgToProfile (JStr orgId) b)
     = (if refuses b (Update ''profiles'' [(''current_organization_id'', JStr orgId)] ''id''
                        (JStr user)) = None
        then (tables b)(''profiles'' :=
               map (\<lambda>r. if map_of r ''id'' = Some (JStr user)
                         then AList.update ''current_organization_id'' (JStr orgId) r else r)
                 (tables b ''profiles''))
        else tables b)"
  by (simp add: saveCurrentOrgToProfile_def send_def request_body_def set_columns_single
      cong: if_cong)

lemma select_eq_update:
  assumes "k \<noteq> col"
  shows "select_eq col v (map (\<lambda>r. if map_of r col = Some v then AList.update k w r else r) rows)
    = map (AList.update k w) (select_eq col v rows)"
  using assms by (induction rows) (simp_all add: select_eq_def update_conv')

text \<open>
  What the write is for: once the store has accepted it, and the user has one profile row,
  the next \<^verbatim>\<open>getCurrentOrgFromProfile\<close> reads the id that was saved.
\<close>

lemma saved_is_read_back:
  assumes user: "session b = Some user"
    and ok: "refuses b (Update ''profiles'' [(''current_organization_id'', JStr orgId)] ''id''
                          (JStr user)) = None"
    and row: "select_eq ''id'' (JStr user) (tables b ''profiles'') = [profile]"
    and id: "orgId \<noteq> []"
  shows "getCurrentOrgFromProfile (saveCurrentOrgToProfile (JStr orgId) b) = JStr orgId"
proof -
  have s: "session (saveCurrentOrgToProfile (JStr orgId) b) = Some user"
    using user by (simp add: saveCurrentOrgToProfile_session)
  have "select_eq ''id'' (JStr user)
          (tables (saveCurrentOrgToProfile (JStr orgId) b) ''profiles'')
      = [AList.update ''current_organization_id'' (JStr orgId) profile]"
    using ok by (simp add: saveCurrentOrgToProfile_tables [OF user] select_eq_update row)
  then show ?thesis
    using id by (simp add: getCurrentOrgFromProfile_def s js_get_def js_or_def update_conv')
qed

text \<open>A refused write leaves what is stored, and so what is read, as it was.\<close>

lemma refused_is_not_stored:
  assumes user: "session b = Some user"
    and refused: "refuses b (Update ''profiles'' [(''current_organization_id'', JStr orgId)]
                               ''id'' (JStr user)) \<noteq> None"
  shows "tables (saveCurrentOrgToProfile (JStr orgId) b) = tables b
    \<and> getCurrentOrgFromProfile (saveCurrentOrgToProfile (JStr orgId) b)
        = getCurrentOrgFromProfile b"
proof -
  have t: "tables (saveCurrentOrgToProfile (JStr orgId) b) = tables b"
    using refused by (auto simp: saveCurrentOrgToProfile_tables [OF user])
  show ?thesis
    using user by (simp add: t getCurrentOrgFromProfile_def saveCurrentOrgToProfile_session)
qed

subsection \<open>\<^verbatim>\<open>refreshOrganizations\<close>\<close>

lemma refresh_empty:
  "fetchOrganizations b = [] \<Longrightarrow>
   refreshOrganizations (ctx, b)
     = (ctx\<lparr>isLoading := True, organizations := [], currentOrganization := None,
            isLoading := False\<rparr>, b)"
  by (simp add: refreshOrganizations_def)

lemma refresh_found:
  "fetchOrganizations b = first # rest \<Longrightarrow>
   find (\<lambda>e. id_of e = getCurrentOrgFromProfile b) (fetchOrganizations b) = Some y \<Longrightarrow>
   refreshOrganizations (ctx, b)
     = (ctx\<lparr>isLoading := True, organizations := first # rest,
            currentOrganization := Some y, isLoading := False\<rparr>, b)"
  by (simp add: refreshOrganizations_def Let_def del: find.simps)

lemma refresh_default:
  "fetchOrganizations b = first # rest \<Longrightarrow>
   find (\<lambda>e. id_of e = getCurrentOrgFromProfile b) (fetchOrganizations b) = None \<Longrightarrow>
   refreshOrganizations (ctx, b)
     = (ctx\<lparr>isLoading := True, organizations := first # rest,
            currentOrganization := Some first, isLoading := False\<rparr>,
        saveCurrentOrgToProfile (id_of first) b)"
  by (simp add: refreshOrganizations_def Let_def del: find.simps)

text \<open>
  Claim C5, as amended. Let \<open>orgs\<close> be the fetched list and \<open>saved\<close> the persisted
  selection as \<^verbatim>\<open>getCurrentOrgFromProfile\<close> reads it. After \<^verbatim>\<open>refreshOrganizations\<close> the
  list of organizations is \<open>orgs\<close>. If \<open>orgs\<close> is empty, the current organization is null
  and nothing is written. If \<open>saved\<close> is the id of an entry of \<open>orgs\<close>, the current
  organization is the entry of \<open>orgs\<close> with that id (the first one, should several share
  it), and nothing is written. If \<open>orgs\<close> is not empty and \<open>saved\<close> is the id of none of
  its entries, the current organization is the first entry; a user is signed in, and if
  the first entry has an id, one update of that user's profile row is issued that sets
  \<^verbatim>\<open>current_organization_id\<close> to it. The outcome of the update is not looked at. If the
  store accepts it, the rows of the profiles table with the user's id hold the new id and
  nothing else in the tables changes, and if the user has exactly one profile row (and the
  id is not the empty text) the next read of the persisted selection gives the new id. If
  the store refuses it, the tables and the persisted selection are as before. In every
  case the current organization is null or an entry of the list of organizations.
\<close>

theorem refreshOrganizations_selection:
  fixes ctx :: OrganizationContext and b :: backend
  defines "orgs \<equiv> fetchOrganizations b"
    and "saved \<equiv> getCurrentOrgFromProfile b"
    and "ctx' \<equiv> fst (refreshOrganizations (ctx, b))"
    and "b' \<equiv> snd (refreshOrganizations (ctx, b))"
  shows "organizations ctx' = orgs
    \<and> (orgs = [] \<longrightarrow> currentOrganization ctx' = None \<and> b' = b)
    \<and> (\<forall>e. e \<in> set orgs \<and> saved = id_of e \<longrightarrow>
          currentOrganization ctx' = find (\<lambda>x. id_of x = id_of e) orgs
          \<and> (\<exists>x. currentOrganization ctx' = Some x \<and> x \<in> set orgs \<and> id_of x = id_of e)
          \<and> b' = b)
    \<and> (orgs \<noteq> [] \<and> (\<forall>e \<in> set orgs. saved \<noteq> id_of e) \<longrightarrow>
          currentOrganization ctx' = Some (hd orgs) \<and> session b \<noteq> None)
    \<and> (\<forall>user fid.
          orgs \<noteq> [] \<and> (\<forall>e \<in> set orgs. saved \<noteq> id_of e)
          \<and> session b = Some user \<and> org_id (hd orgs) = Some fid \<longrightarrow>
          sent b' = sent b @ [Update ''profiles'' [(''current_organization_id'', JStr fid)]
                                ''id'' (JStr user)])
    \<and> (\<forall>user fid.
          orgs \<noteq> [] \<and> (\<forall>e \<in> set orgs. saved \<noteq> id_of e)
          \<and> session b = Some user \<and> org_id (hd orgs) = Some fid
          \<and> refuses b (Update ''profiles'' [(''current_organization_id'', JStr fid)] ''id''
                          (JStr user)) = None \<longrightarrow>
          tables b' = (tables b)(''profiles'' :=
              map (\<lambda>r. if map_of r ''id'' = Some (JStr user)
                        then AList.update ''current_organization_id'' (JStr fid) r else r)
                (tables b ''profiles'')))
    \<and> (\<forall>user fid profile.
          orgs \<noteq> [] \<and> (\<forall>e \<in> set orgs. saved \<noteq> id_of e)
          \<and> session b = Some user \<and> org_id (hd orgs) = Some fid
          \<and> refuses b (Update ''profiles'' [(''current_organization_id'', JStr fid)] ''id''
                          (JStr user)) = None
          \<and> select_eq ''id'' (JStr user) (tables b ''profiles'') = [profile] \<and> fid \<noteq> [] \<longrightarrow>
          getCurrentOrgFromProfile b' = JStr fid)
    \<and> (\<forall>user fid.
          orgs \<noteq> [] \<and> (\<forall>e \<in> set orgs. saved \<noteq> id_of e)
          \<and> session b = Some user \<and> org_id (hd orgs) = Some fid
          \<and> refuses b (Update ''profiles'' [(''current_organization_id'', JStr fid)] ''id''
                          (JStr user)) \<noteq> None \<longrightarrow>
          tables b' = tables b \<and> getCurrentOrgFromProfile b' = saved)
    \<and> (\<forall>x. currentOrganization ctx' = Some x \<longrightarrow> x \<in> set (organizations ctx'))"
proof -
  have empty: "orgs = [] \<Longrightarrow> organizations ctx' = orgs \<and> currentOrganization ctx' = None \<and> b' = b"
    unfolding orgs_def ctx'_def b'_def by (simp add: refresh_empty)
  have found: "organizations ctx' = orgs \<and> currentOrganization ctx' = Some y \<and> b' = b"
    if ne: "orgs \<noteq> []" and f: "find (\<lambda>e. id_of e = saved) orgs = Some y" for y
  proof -
    obtain first rest where fr: "fetchOrganizations b = first # rest"
      using ne unfolding orgs_def by (cases "fetchOrganizations b") auto
    show ?thesis
      using refresh_found [OF fr f [unfolded orgs_def saved_def], of ctx] fr
      unfolding orgs_def ctx'_def b'_def by simp
  qed
  have default: "organizations ctx' = orgs \<and> currentOrganization ctx' = Some (hd orgs)
      \<and> b' = saveCurrentOrgToProfile (id_of (hd orgs)) b"
    if ne: "orgs \<noteq> []" and f: "find (\<lambda>e. id_of e = saved) orgs = None"
  proof -
    obtain first rest where fr: "fetchOrganizations b = first # rest"
      using ne unfolding orgs_def by (cases "fetchOrganizations b") auto
    show ?thesis
      using refresh_default [OF fr f [unfolded orgs_def saved_def], of ctx] fr
      unfolding orgs_def ctx'_def b'_def by simp
  qed
  have orgs_ctx: "organizations ctx' = orgs"
    using empty found default
    by (cases "orgs = []"; cases "find (\<lambda>e. id_of e = saved) orgs") auto
  have restore: "currentOrganization ctx' = find (\<lambda>x. id_of x = id_of e) orgs
          \<and> (\<exists>x. currentOrganization ctx' = Some x \<and> x \<in> set orgs \<and> id_of x = id_of e)
          \<and> b' = b"
    if e: "e \<in> set orgs" and s: "saved = id_of e" for e
  proof -
    have eq: "(\<lambda>x. id_of x = saved) = (\<lambda>x. id_of x = id_of e)"
      using s by auto
    obtain x where x: "find (\<lambda>x. id_of x = id_of e) orgs = Some x"
      using e by (cases "find (\<lambda>x. id_of x = id_of e) orgs") (auto simp: find_None_iff)
    have ne: "orgs \<noteq> []"
      using e by auto
    have fx: "find (\<lambda>x. id_of x = saved) orgs = Some x"
      by (simp add: eq x)
    show ?thesis
      using found [OF ne fx] x find_Some_mem [OF x] by simp
  qed
  have none: "find (\<lambda>x. id_of x = saved) orgs = None"
    if "\<forall>e \<in> set orgs. saved \<noteq> id_of e"
    using that by (auto simp: find_None_iff)
  have first: "currentOrganization ctx' = Some (hd orgs) \<and> session b \<noteq> None"
    if ne: "orgs \<noteq> []" and no: "\<forall>e \<in> set orgs. saved \<noteq> id_of e"
    using default [OF ne none [OF no]] fetch_nonempty_session [of b] ne
    unfolding orgs_def by auto
  have after: "b' = saveCurrentOrgToProfile (JStr fid) b"
    if ne: "orgs \<noteq> []" and no: "\<forall>e \<in> set orgs. saved \<noteq> id_of e"
      and fid: "org_id (hd orgs) = Some fid" for fid
    using default [OF ne none [OF no]] id_of_Some [OF fid] by simp
  have issued: "sent b' = sent b @ [Update ''profiles''
        [(''current_organization_id'', JStr fid)] ''id'' (JStr user)]"
    if "orgs \<noteq> []" "\<forall>e \<in> set orgs. saved \<noteq> id_of e" "session b = Some user"
      "org_id (hd orgs) = Some fid" for user fid
    using after [OF that(1,2,4)] saveCurrentOrgToProfile_sent [OF that(3)] by simp
  have accepted: "tables b' = (tables b)(''profiles'' :=
              map (\<lambda>r. if map_of r ''id'' = Some (JStr user)
                        then AList.update ''current_organization_id'' (JStr fid) r else r)
                (tables b ''profiles''))"
    if "orgs \<noteq> []" "\<forall>e \<in> set orgs. saved \<noteq> id_of e" "session b = Some user"
      "org_id (hd orgs) = Some fid"
      "refuses b (Update ''profiles'' [(''current_organization_id'', JStr fid)] ''id''
                    (JStr user)) = None" for user fid
    using after [OF that(1,2,4)] saveCurrentOrgToProfile_tables [OF that(3), of fid] that(5)
    by simp
  have read_back: "getCurrentOrgFromProfile b' = JStr fid"
    if "orgs \<noteq> []" "\<forall>e \<in> set orgs. saved \<noteq> id_of e" "session b = Some user"
      "org_id (hd orgs) = Some fid"
      "refuses b (Update ''profiles'' [(''current_organization_id'', JStr fid)] ''id''
                    (JStr user)) = None"
      "select_eq ''id'' (JStr user) (tables b ''profiles'') = [profile]" "fid \<noteq> []"
    for user fid profile
    using after [OF that(1,2,4)] saved_is_read_back [OF that(3,5,6,7)] by simp
  have refused: "tables b' = tables b \<and> getCurrentOrgFromProfile b' = saved"
    if "orgs \<noteq> []" "\<forall>e \<in> set orgs. saved \<noteq> id_of e" "session b = Some user"
      "org_id (hd orgs) = Some fid"
      "refuses b (Update ''profiles'' [(''current_organization_id'', JStr fid)] ''id''
                    (JStr user)) \<noteq> None" for user fid
    using after [OF that(1,2,4)] refused_is_not_stored [OF that(3,5)]
    unfolding saved_def by simp
  have member: "x \<in> set (organizations ctx')" if cur: "currentOrganization ctx' = Some x" for x
  proof (cases "orgs = []")
    case True
    then show ?thesis using empty cur by simp
  next
    case False
    show ?thesis
    proof (cases "find (\<lambda>x. id_of x = saved) orgs")
      case None
      then show ?thesis using default [OF False None] cur False by auto
    next
      case (Some y)
      then show ?thesis using found [OF False Some] cur find_Some_mem [OF Some] by auto
    qed
  qed
  show ?thesis
  proof (intro conjI allI impI; (elim conjE)?)
    show "organizations ctx' = orgs"
      by (rule orgs_ctx)
  next
    assume none: "orgs = []"
    show "currentOrganization ctx' = None" "b' = b"
      using empty [OF none] by simp_all
  next
    fix e assume a: "e \<in> set orgs" and s: "saved = id_of e"
    show "currentOrganization ctx' = find (\<lambda>x. id_of x = id_of e) orgs"
      "\<exists>x. currentOrganization ctx' = Some x \<and> x \<in> set orgs \<and> id_of x = id_of e"
      "b' = b"
      using restore [OF a s] by blast+
  next
    assume ne: "orgs \<noteq> []" and no: "\<forall>e \<in> set orgs. saved \<noteq> id_of e"
    show "currentOrganization ctx' = Some (hd orgs)" "session b \<noteq> None"
      using first [OF ne no] by simp_all
  next
    fix user fid
    assume "orgs \<noteq> []" "\<forall>e \<in> set orgs. saved \<noteq> id_of e" "session b = Some user"
      "org_id (hd orgs) = Some fid"
    then show "sent b' = sent b @ [Update ''profiles''
        [(''current_organization_id'', JStr fid)] ''id'' (JStr user)]"
      by (rule issued)
  next
    fix user fid
    assume "orgs \<noteq> []" "\<forall>e \<in> set orgs. saved \<noteq> id_of e" "session b = Some user"
      "org_id (hd orgs) = Some fid"
      "refuses b (Update ''profiles'' [(''current_organization_id'', JStr fid)] ''id''
                    (JStr user)) = None"
    then show "tables b' = (tables b)(''profiles'' :=
              map (\<lambda>r. if map_of r ''id'' = Some (JStr user)
                        then AList.update ''current_organization_id'' (JStr fid) r else r)
                (tables b ''profiles''))"
      by (rule accepted)
  next
    fix user fid profile
    assume "orgs \<noteq> []" "\<forall>e \<in> set orgs. saved \<noteq> id_of e" "session b = Some user"
      "org_id (hd orgs) = Some fid"
      "refuses b (Update ''profiles'' [(''current_organization_id'', JStr fid)] ''id''
                    (JStr user)) = None"
      "select_eq ''id'' (JStr user) (tables b ''profiles'') = [profile]" "fid \<noteq> []"
    then show "getCurrentOrgFromProfile b' = JStr fid"
      by (rule read_back)
  next
    fix user fid
    assume h: "orgs \<noteq> []" "\<forall>e \<in> set orgs. saved \<noteq> id_of e" "session b = Some user"
      "org_id (hd orgs) = Some fid"
      "refuses b (Update ''profiles'' [(''current_organization_id'', JStr fid)] ''id''
                    (JStr user)) \<noteq> None"
    show "tables b' = tables b" "getCurrentOrgFromProfile b' = saved"
      using refused [OF h] by simp_all
  next
    fix x assume "currentOrganization ctx' = Some x"
    then show "x \<in> set (organizations ctx')"
      by (rule member)
  qed
qed

lemma sample_ids:
  "org_id sample_current = Some ''org-a''" "org_id sample_other = Some ''org-b''"
  "id_of sample_current = JStr ''org-a''" "id_of sample_other = JStr ''org-b''"
  "id_of (role_only r) = JUndefined"
  by (simp_all add: id_of_def sample_current_def sample_other_def role_only_def with_role_def
      sample_org_def Organization.defs)

lemma sample_fetch:
  "fetchOrganizations sample_backend = [sample_current, sample_other, role_only ''employee'']"
  "fetchOrganizations stale_backend = [sample_current, sample_other, role_only ''employee'']"
  "fetchOrganizations refusing_backend
     = [sample_current, sample_other, role_only ''employee'']"
  "fetchOrganizations (sample_backend\<lparr>session := None\<rparr>) = []"
  by (simp_all add: fetchOrganizations_def sample_backend_def stale_backend_def
      refusing_backend_def sample_memberships_def sample_current_def sample_other_def
      List.map_filter_simps)

lemma sample_saved:
  "getCurrentOrgFromProfile sample_backend = JStr ''org-b''"
  "getCurrentOrgFromProfile stale_backend = JStr ''org-z''"
  "getCurrentOrgFromProfile refusing_backend = JStr ''org-z''"
  by (simp_all add: getCurrentOrgFromProfile_def sample_backend_def stale_backend_def
      refusing_backend_def select_eq_def js_get_def js_or_def)

lemma sample_profiles:
  "session stale_backend = Some ''user-1''"
  "session refusing_backend = Some ''user-1''"
  "sent stale_backend = []"
  "refuses stale_backend req = None"
  "refuses refusing_backend req = Some ''permission denied''"
  "tables stale_backend ''profiles''
     = [[(''id'', JStr ''user-1''), (''full_name'', JStr ''Ana''),
         (''current_organization_id'', JStr ''org-z'')]]"
  "tables refusing_backend ''profiles''
     = [[(''id'', JStr ''user-1''), (''full_name'', JStr ''Ana''),
         (''current_organization_id'', JStr ''org-z'')]]"
  by (simp_all add: stale_backend_def refusing_backend_def sample_backend_def)

text \<open>
  The fetched list of the samples has two organizations and the entry of an empty array.
  A profile that names the second organization restores it and writes nothing. A profile
  that names an organization no longer in the list selects the first and writes its id:
  an accepting store then holds it and gives it back, a refusing store is as before. A
  signed-out session has no organizations.
\<close>

theorem refreshOrganizations_selection_witness:
  "fetchOrganizations sample_backend = [sample_current, sample_other, role_only ''employee'']
   \<and> getCurrentOrgFromProfile sample_backend = id_of sample_other
   \<and> currentOrganization (fst (refreshOrganizations (sample_context, sample_backend)))
       = Some sample_other
   \<and> snd (refreshOrganizations (sample_context, sample_backend)) = sample_backend
   \<and> getCurrentOrgFromProfile stale_backend = JStr ''org-z''
   \<and> currentOrganization (fst (refreshOrganizations (sample_context, stale_backend)))
       = Some sample_current
   \<and> sent (snd (refreshOrganizations (sample_context, stale_backend)))
       = [Update ''profiles'' [(''current_organization_id'', JStr ''org-a'')] ''id''
            (JStr ''user-1'')]
   \<and> tables (snd (refreshOrganizations (sample_context, stale_backend))) ''profiles''
       = [[(''id'', JStr ''user-1''), (''full_name'', JStr ''Ana''),
           (''current_organization_id'', JStr ''org-a'')]]
   \<and> getCurrentOrgFromProfile (snd (refreshOrganizations (sample_context, stale_backend)))
       = JStr ''org-a''
   \<and> currentOrganization (fst (refreshOrganizations (sample_context, refusing_backend)))
       = Some sample_current
   \<and> tables (snd (refreshOrganizations (sample_context, refusing_backend))) ''profiles''
       = [[(''id'', JStr ''user-1''), (''full_name'', JStr ''Ana''),
           (''current_organization_id'', JStr ''org-z'')]]
   \<and> currentOrganization
        (fst (refreshOrganizations (loaded_context, sample_backend\<lparr>session := None\<rparr>)))
       = None"
proof -
  note restored =
    refreshOrganizations_selection [of sample_context sample_backend, THEN conjunct2,
      THEN conjunct2, THEN conjunct1, rule_format, of sample_other]
  note signed_out =
    refreshOrganizations_selection [of loaded_context "sample_backend\<lparr>session := None\<rparr>",
      THEN conjunct2, THEN conjunct1, rule_format]
  note first =
    refreshOrganizations_selection [of sample_context stale_backend, THEN conjunct2,
      THEN conjunct2, THEN conjunct2, THEN conjunct1, rule_format]
  note issued =
    refreshOrganizations_selection [of sample_context stale_backend, THEN conjunct2,
      THEN conjunct2, THEN conjunct2, THEN conjunct2, THEN conjunct1, rule_format,
      of "''user-1''" "''org-a''"]
  note accepted =
    refreshOrganizations_selection [of sample_context stale_backend, THEN conjunct2,
      THEN conjunct2, THEN conjunct2, THEN conjunct2, THEN conjunct2, THEN conjunct1,
      rule_format, of "''user-1''" "''org-a''"]
  note read_back =
    refreshOrganizations_selection [of sample_context stale_backend, THEN conjunct2,
      THEN conjunct2, THEN conjunct2, THEN conjunct2, THEN conjunct2, THEN conjunct2,
      THEN conjunct1, rule_format, of "''user-1''" "''org-a''"
      "[(''id'', JStr ''user-1''), (''full_name'', JStr ''Ana''),
        (''current_organization_id'', JStr ''org-z'')]"]
  note first_refused =
    refreshOrganizations_selection [of sample_context refusing_backend, THEN conjunct2,
      THEN conjunct2, THEN conjunct2, THEN conjunct1, rule_format]
  note refused =
    refreshOrganizations_selection [of sample_context refusing_backend, THEN conjunct2,
      THEN conjunct2, THEN conjunct2, THEN conjunct2, THEN conjunct2, THEN conjunct2,
      THEN conjunct2, THEN conjunct1, rule_format, of "''user-1''" "''org-a''"]
  have a: "currentOrganization (fst (refreshOrganizations (sample_context, sample_backend)))
       = Some sample_other
     \<and> snd (refreshOrganizations (sample_context, sample_backend)) = sample_backend"
    using restored by (simp add: sample_fetch sample_saved sample_ids)
  have b: "currentOrganization (fst (refreshOrganizations (sample_context, stale_backend)))
       = Some sample_current"
    using first by (simp add: sample_fetch sample_saved sample_ids)
  have c: "sent (snd (refreshOrganizations (sample_context, stale_backend)))
       = [Update ''profiles'' [(''current_organization_id'', JStr ''org-a'')] ''id''
            (JStr ''user-1'')]"
    using issued by (simp add: sample_fetch sample_saved sample_ids sample_profiles)
  have d: "tables (snd (refreshOrganizations (sample_context, stale_backend))) ''profiles''
       = [[(''id'', JStr ''user-1''), (''full_name'', JStr ''Ana''),
           (''current_organization_id'', JStr ''org-a'')]]"
    using accepted by (simp add: sample_fetch sample_saved sample_ids sample_profiles)
  have e: "getCurrentOrgFromProfile (snd (refreshOrganizations (sample_context, stale_backend)))
       = JStr ''org-a''"
    using read_back
    by (simp add: sample_fetch sample_saved sample_ids sample_profiles select_eq_def)
  have f: "currentOrganization (fst (refreshOrganizations (sample_context, refusing_backend)))
       = Some sample_current"
    using first_refused by (simp add: sample_fetch sample_saved sample_ids)
  have g: "tables (snd (refreshOrganizations (sample_context, refusing_backend))) ''profiles''
       = [[(''id'', JStr ''user-1''), (''full_name'', JStr ''Ana''),
           (''current_organization_id'', JStr ''org-z'')]]"
    using refused by (simp add: sample_fetch sample_saved sample_ids sample_profiles)
  have h: "currentOrganization
        (fst (refreshOrganizations (loaded_context, sample_backend\<lparr>session := None\<rparr>)))
       = None"
    using signed_out by (simp add: sample_fetch)
  show ?thesis
    using a b c d e f g h by (simp add: sample_fetch sample_saved sample_ids)
qed

text \<open>
  Claim C5 as stated fails when the store refuses the write: the persisted id names no
  entry of the list, the current organization becomes the first entry, and that choice is
  not persisted. The profile row and the persisted selection read from it are as before.
\<close>

theorem refreshOrganizations_refused_counterexample:
  "fetchOrganizations refusing_backend = [sample_current, sample_other, role_only ''employee'']
   \<and> getCurrentOrgFromProfile refusing_backend = JStr ''org-z''
   \<and> id_of sample_current = JStr ''org-a''
   \<and> id_of sample_other = JStr ''org-b''
   \<and> id_of (role_only ''employee'') = JUndefined
   \<and> currentOrganization (fst (refreshOrganizations (sample_context, refusing_backend)))
       = Some sample_current
   \<and> tables (snd (refreshOrganizations (sample_context, refusing_backend))) ''profiles''
       = [[(''id'', JStr ''user-1''), (''full_name'', JStr ''Ana''),
           (''current_organization_id'', JStr ''org-z'')]]
   \<and> getCurrentOrgFromProfile (snd (refreshOrganizations (sample_context, refusing_backend)))
       = JStr ''org-z''"
proof -
  have none: "find (\<lambda>e. id_of e = getCurrentOrgFromProfile refusing_backend)
        (fetchOrganizations refusing_backend) = None"
    by (simp add: sample_fetch sample_saved sample_ids)
  have r: "refreshOrganizations (sample_context, refusing_backend)
      = (sample_context\<lparr>isLoading := True,
           organizations := [sample_current, sample_other, role_only ''employee''],
           currentOrganization := Some sample_current, isLoading := False\<rparr>,
         saveCurrentOrgToProfile (JStr ''org-a'') refusing_backend)"
    using refresh_default [OF sample_fetch(3) none, of sample_context]
    by (simp add: sample_ids)
  have "refuses refusing_backend
          (Update ''profiles'' [(''current_organization_id'', JStr ''org-a'')] ''id''
             (JStr ''user-1'')) \<noteq> None"
    by (simp add: sample_profiles)
  note kept = refused_is_not_stored [OF sample_profiles(2) this]
  show ?thesis
    using kept by (simp add: r sample_fetch sample_saved sample_ids sample_profiles)
qed

text \<open>
  Claim C6, as amended. For an id that is not in the list of organizations,
  \<^verbatim>\<open>switchOrganization\<close> changes nothing and writes nothing. For an id that is in the list
  it sets the current organization to the entry with that id (the first one); with a
  signed-in user it issues one update of that user's profile row, setting
  \<^verbatim>\<open>current_organization_id\<close> to the id, which an accepting store applies to the rows of
  the profiles table with the user's id and a refusing store leaves without effect; with
  no signed-in user it writes nothing.
\<close>

theorem switchOrganization_effect:
  "(JStr orgId \<notin> id_of ` set (organizations ctx) \<longrightarrow>
       switchOrganization orgId (ctx, b) = (ctx, b))
   \<and> (\<forall>org. find (\<lambda>e. id_of e = JStr orgId) (organizations ctx) = Some org \<longrightarrow>
         fst (switchOrganization orgId (ctx, b)) = ctx\<lparr>currentOrganization := Some org\<rparr>
         \<and> org \<in> set (organizations ctx) \<and> id_of org = JStr orgId
         \<and> (session b = None \<longrightarrow> snd (switchOrganization orgId (ctx, b)) = b)
         \<and> (\<forall>user. session b = Some user \<longrightarrow>
               sent (snd (switchOrganization orgId (ctx, b)))
                 = sent b @ [Update ''profiles'' [(''current_organization_id'', JStr orgId)]
                               ''id'' (JStr user)]
               \<and> tables (snd (switchOrganization orgId (ctx, b)))
                 = (if refuses b (Update ''profiles''
                                    [(''current_organization_id'', JStr orgId)] ''id''
                                    (JStr user)) = None
                    then (tables b)(''profiles'' :=
                           map (\<lambda>r. if map_of r ''id'' = Some (JStr user)
                                     then AList.update ''current_organization_id''
                                            (JStr orgId) r
                                     else r)
                             (tables b ''profiles''))
                    else tables b)))
   \<and> (JStr orgId \<in> id_of ` set (organizations ctx) \<longrightarrow>
         (\<exists>org. find (\<lambda>e. id_of e = JStr orgId) (organizations ctx) = Some org))"
proof -
  have absent: "switchOrganization orgId (ctx, b) = (ctx, b)"
    if "JStr orgId \<notin> id_of ` set (organizations ctx)"
    using that by (simp add: switchOrganization_def find_None_absent [symmetric])
  have present: "fst (switchOrganization orgId (ctx, b)) = ctx\<lparr>currentOrganization := Some org\<rparr>
      \<and> snd (switchOrganization orgId (ctx, b)) = saveCurrentOrgToProfile (JStr orgId) b"
    if "find (\<lambda>e. id_of e = JStr orgId) (organizations ctx) = Some org" for org
    using that by (simp add: switchOrganization_def)
  have full: "fst (switchOrganization orgId (ctx, b)) = ctx\<lparr>currentOrganization := Some org\<rparr>
         \<and> org \<in> set (organizations ctx) \<and> id_of org = JStr orgId
         \<and> (session b = None \<longrightarrow> snd (switchOrganization orgId (ctx, b)) = b)
         \<and> (\<forall>user. session b = Some user \<longrightarrow>
               sent (snd (switchOrganization orgId (ctx, b)))
                 = sent b @ [Update ''profiles'' [(''current_organization_id'', JStr orgId)]
                               ''id'' (JStr user)]
               \<and> tables (snd (switchOrganization orgId (ctx, b)))
                 = (if refuses b (Update ''profiles''
                                    [(''current_organization_id'', JStr orgId)] ''id''
                                    (JStr user)) = None
                    then (tables b)(''profiles'' :=
                           map (\<lambda>r. if map_of r ''id'' = Some (JStr user)
                                     then AList.update ''current_organization_id''
                                            (JStr orgId) r
                                     else r)
                             (tables b ''profiles''))
                    else tables b))"
    if f: "find (\<lambda>e. id_of e = JStr orgId) (organizations ctx) = Some org" for org
    using present [OF f] find_Some_mem [OF f]
    by (simp add: saveCurrentOrgToProfile_sent saveCurrentOrgToProfile_no_session
        saveCurrentOrgToProfile_tables)
  have ex: "\<exists>org. find (\<lambda>e. id_of e = JStr orgId) (organizations ctx) = Some org"
    if "JStr orgId \<in> id_of ` set (organizations ctx)"
    using that find_None_absent [of id_of "JStr orgId" "organizations ctx"] by auto
  show ?thesis
    using absent full ex by blast
qed

theorem switchOrganization_effect_witness:
  "JStr ''org-z'' \<notin> id_of ` set (organizations loaded_context)
   \<and> switchOrganization ''org-z'' (loaded_context, sample_backend)
       = (loaded_context, sample_backend)
   \<and> find (\<lambda>e. id_of e = JStr ''org-b'') (organizations loaded_context) = Some sample_other
   \<and> session sample_backend = Some ''user-1''
   \<and> currentOrganization (fst (switchOrganization ''org-b'' (loaded_context, sample_backend)))
       = Some sample_other
   \<and> sent (snd (switchOrganization ''org-b'' (loaded_context, sample_backend)))
       = [Update ''profiles'' [(''current_organization_id'', JStr ''org-b'')] ''id''
            (JStr ''user-1'')]
   \<and> tables (snd (switchOrganization ''org-b'' (loaded_context, stale_backend))) ''profiles''
       = [[(''id'', JStr ''user-1''), (''full_name'', JStr ''Ana''),
           (''current_organization_id'', JStr ''org-b'')]]"
proof -
  have z: "JStr ''org-z'' \<notin> id_of ` set (organizations loaded_context)"
    by (simp add: loaded_context_def sample_ids)
  have f: "find (\<lambda>e. id_of e = JStr ''org-b'') (organizations loaded_context)
      = Some sample_other"
    by (simp add: loaded_context_def sample_ids)
  have u: "session sample_backend = Some ''user-1''"
    by (simp add: sample_backend_def)
  note absent =
    switchOrganization_effect [of "''org-z''" loaded_context sample_backend, THEN conjunct1,
      rule_format, OF z]
  note present =
    switchOrganization_effect [of "''org-b''" loaded_context sample_backend, THEN conjunct2,
      THEN conjunct1, rule_format, OF f]
  note stored =
    switchOrganization_effect [of "''org-b''" loaded_context stale_backend, THEN conjunct2,
      THEN conjunct1, rule_format, OF f]
  have s: "sent sample_backend = []"
    by (simp add: sample_backend_def)
  have t: "tables (snd (switchOrganization ''org-b'' (loaded_context, stale_backend)))
        ''profiles''
       = [[(''id'', JStr ''user-1''), (''full_name'', JStr ''Ana''),
           (''current_organization_id'', JStr ''org-b'')]]"
    using stored by (simp add: sample_profiles)
  show ?thesis
    using z f u absent present t by (simp add: s)
qed

text \<open>
  Claim C6 as stated fails without a signed-in user: the id is in the list, the current
  organization is switched, and no write is issued.
\<close>

theorem switchOrganization_signed_out_counterexample:
  "find (\<lambda>e. id_of e = JStr ''org-b'') (organizations loaded_context) = Some sample_other
   \<and> currentOrganization
        (fst (switchOrganization ''org-b'' (loaded_context, sample_backend\<lparr>session := None\<rparr>)))
       = Some sample_other
   \<and> snd (switchOrganization ''org-b'' (loaded_context, sample_backend\<lparr>session := None\<rparr>))
       = sample_backend\<lparr>session := None\<rparr>
   \<and> sent (snd (switchOrganization ''org-b''
                  (loaded_context, sample_backend\<lparr>session := None\<rparr>))) = []"
proof -
  have f: "find (\<lambda>e. id_of e = JStr ''org-b'') (organizations loaded_context)
      = Some sample_other"
    by (simp add: loaded_context_def sample_ids)
  have s: "sent sample_backend = []"
    by (simp add: sample_backend_def)
  show ?thesis
    using f by (simp add: switchOrganization_def saveCurrentOrgToProfile_def s)
qed

section \<open>Removing a member\<close>

text \<open>
  Claim C7, as amended. For an owner \<^verbatim>\<open>handleRemoveMember\<close> shows the rejection and does
  nothing else: no dialog, no write, no reload. For any other member it asks for
  confirmation. If the user declines, nothing more happens. If the user confirms, it issues
  the delete of the membership row with the member's id; if the store accepts it, that row
  is gone from the table, a success toast is shown and \<^verbatim>\<open>loadMembers\<close> is called; if the
  store refuses it, the tables are as before, an error toast is shown (the store's message,
  or the fixed text when the message is empty) and nothing else, and the list is not
  reloaded.
\<close>

theorem handleRemoveMember_effect:
  "(member_role member = ''owner'' \<longrightarrow>
      handleRemoveMember confirmed member st
        = ([ToastError ''Ne mozete ukloniti vlasnika''], st))
   \<and> (member_role member \<noteq> ''owner'' \<and> \<not> confirmed \<longrightarrow>
      handleRemoveMember confirmed member st = ([ConfirmDialog], st))
   \<and> (member_role member \<noteq> ''owner'' \<and> confirmed \<longrightarrow>
      sent (snd (handleRemoveMember confirmed member st))
        = sent st @ [Delete ''organization_members'' ''id'' (JStr (member_id member))])
   \<and> (member_role member \<noteq> ''owner'' \<and> confirmed
        \<and> refuses st (Delete ''organization_members'' ''id'' (JStr (member_id member))) = None
      \<longrightarrow>
      tables (snd (handleRemoveMember confirmed member st)) ''organization_members''
        = filter (\<lambda>r. map_of r ''id'' \<noteq> Some (JStr (member_id member)))
            (tables st ''organization_members'')
      \<and> fst (handleRemoveMember confirmed member st)
        = [ConfirmDialog, ToastSuccess ''Clan uspjesno uklonjen'', LoadMembers])
   \<and> (member_role member \<noteq> ''owner'' \<and> confirmed
        \<and> refuses st (Delete ''organization_members'' ''id'' (JStr (member_id member))) \<noteq> None
      \<longrightarrow>
      tables (snd (handleRemoveMember confirmed member st)) = tables st
      \<and> LoadMembers \<notin> set (fst (handleRemoveMember confirmed member st)))
   \<and> (\<forall>message. member_role member \<noteq> ''owner'' \<and> confirmed
        \<and> refuses st (Delete ''organization_members'' ''id'' (JStr (member_id member)))
            = Some message
      \<longrightarrow>
      fst (handleRemoveMember confirmed member st)
        = [ConfirmDialog,
           ToastError (if message \<noteq> [] then message else ''Greska pri uklanjanju clana'')])"
  by (auto simp: handleRemoveMember_def send_def)

text \<open>
  An owner is rejected; an employee is removed once the user has confirmed and the store
  has accepted; a store that refuses shows its message, or the fixed text for an empty
  message, and keeps the row.
\<close>

theorem handleRemoveMember_effect_witness:
  "member_role (sample_member\<lparr>member_id := ''m-1'', member_role := ''owner''\<rparr>) = ''owner''
   \<and> handleRemoveMember True (sample_member\<lparr>member_id := ''m-1'', member_role := ''owner''\<rparr>)
         sample_members_store
       = ([ToastError ''Ne mozete ukloniti vlasnika''], sample_members_store)
   \<and> member_role sample_member = ''employee''
   \<and> refuses sample_members_store
         (Delete ''organization_members'' ''id'' (JStr (member_id sample_member))) = None
   \<and> sent (snd (handleRemoveMember True sample_member sample_members_store))
       = [Delete ''organization_members'' ''id'' (JStr ''m-2'')]
   \<and> tables (snd (handleRemoveMember True sample_member sample_members_store))
         ''organization_members''
       = [[(''id'', JStr ''m-1''), (''user_id'', JStr ''user-1''), (''role'', JStr ''owner'')]]
   \<and> fst (handleRemoveMember True sample_member sample_members_store)
       = [ConfirmDialog, ToastSuccess ''Clan uspjesno uklonjen'', LoadMembers]
   \<and> fst (handleRemoveMember True sample_member
             (sample_members_store\<lparr>refuses := (\<lambda>req. Some ''permission denied'')\<rparr>))
       = [ConfirmDialog, ToastError ''permission denied'']
   \<and> tables (snd (handleRemoveMember True sample_member
             (sample_members_store\<lparr>refuses := (\<lambda>req. Some ''permission denied'')\<rparr>)))
         ''organization_members''
       = [[(''id'', JStr ''m-1''), (''user_id'', JStr ''user-1''), (''role'', JStr ''owner'')],
          [(''id'', JStr ''m-2''), (''user_id'', JStr ''user-2''),
           (''role'', JStr ''employee'')]]
   \<and> fst (handleRemoveMember True sample_member
             (sample_members_store\<lparr>refuses := (\<lambda>req. Some [])\<rparr>))
       = [ConfirmDialog, ToastError ''Greska pri uklanjanju clana'']"
proof -
  note refused =
    handleRemoveMember_effect
      [of sample_member True
          "sample_members_store\<lparr>refuses := (\<lambda>req. Some ''permission denied'')\<rparr>",
       THEN conjunct2, THEN conjunct2, THEN conjunct2, THEN conjunct2]
  note refused_message = refused [THEN conjunct2, rule_format, of "''permission denied''"]
  note refused_tables = refused [THEN conjunct1, rule_format]
  note refused_blank =
    handleRemoveMember_effect
      [of sample_member True "sample_members_store\<lparr>refuses := (\<lambda>req. Some [])\<rparr>",
       THEN conjunct2, THEN conjunct2, THEN conjunct2, THEN conjunct2, THEN conjunct2,
       rule_format, of "[]"]
  have r: "fst (handleRemoveMember True sample_member
             (sample_members_store\<lparr>refuses := (\<lambda>req. Some ''permission denied'')\<rparr>))
       = [ConfirmDialog, ToastError ''permission denied'']"
    using refused_message by (simp add: sample_member_def)
  have t: "tables (snd (handleRemoveMember True sample_member
             (sample_members_store\<lparr>refuses := (\<lambda>req. Some ''permission denied'')\<rparr>)))
         ''organization_members''
       = [[(''id'', JStr ''m-1''), (''user_id'', JStr ''user-1''), (''role'', JStr ''owner'')],
          [(''id'', JStr ''m-2''), (''user_id'', JStr ''user-2''),
           (''role'', JStr ''employee'')]]"
    using refused_tables by (simp add: sample_member_def sample_members_store_def)
  have e: "fst (handleRemoveMember True sample_member
             (sample_members_store\<lparr>refuses := (\<lambda>req. Some [])\<rparr>))
       = [ConfirmDialog, ToastError ''Greska pri uklanjanju clana'']"
    using refused_blank by (simp add: sample_member_def)
  have rest: "member_role (sample_member\<lparr>member_id := ''m-1'', member_role := ''owner''\<rparr>)
       = ''owner''
   \<and> handleRemoveMember True (sample_member\<lparr>member_id := ''m-1'', member_role := ''owner''\<rparr>)
         sample_members_store
       = ([ToastError ''Ne mozete ukloniti vlasnika''], sample_members_store)
   \<and> member_role sample_member = ''employee''
   \<and> refuses sample_members_store
         (Delete ''organization_members'' ''id'' (JStr (member_id sample_member))) = None
   \<and> sent (snd (handleRemoveMember True sample_member sample_members_store))
       = [Delete ''organization_members'' ''id'' (JStr ''m-2'')]
   \<and> tables (snd (handleRemoveMember True sample_member sample_members_store))
         ''organization_members''
       = [[(''id'', JStr ''m-1''), (''user_id'', JStr ''user-1''), (''role'', JStr ''owner'')]]
   \<and> fst (handleRemoveMember True sample_member sample_members_store)
       = [ConfirmDialog, ToastSuccess ''Clan uspjesno uklonjen'', LoadMembers]"
    using handleRemoveMember_effect
            [of "sample_member\<lparr>member_id := ''m-1'', member_role := ''owner''\<rparr>" True
                sample_members_store]
          handleRemoveMember_effect [of sample_member True sample_members_store]
    by (simp add: sample_member_def sample_members_store_def)
  show ?thesis
    using rest r t e by simp
qed

text \<open>
  Claim C7 as stated fails when the user declines the dialog: the member is not an owner,
  and no delete is issued and no reload is triggered.
\<close>

theorem handleRemoveMember_declined_counterexample:
  "member_role sample_member \<noteq> ''owner''
   \<and> handleRemoveMember False sample_member sample_members_store
       = ([ConfirmDialog], sample_members_store)
   \<and> LoadMembers \<notin> set (fst (handleRemoveMember False sample_member sample_members_store))
   \<and> sent (snd (handleRemoveMember False sample_member sample_members_store)) = []"
  by (simp add: handleRemoveMember_def sample_member_def sample_members_store_def)

section \<open>Saving the form\<close>

lemma handleSave_sent:
  "sent (snd (handleSave invoice (pg, st)))
      = sent st @ [Update ''invoices'' (save_payload (form pg)) ''id'' (JStr (inv_id invoice))]"
  by (simp add: handleSave_def send_def Let_def)

lemma handleSave_page:
  "fst (handleSave invoice (pg, st))
     = (if refuses st (Update ''invoices'' (save_payload (form pg)) ''id''
                          (JStr (inv_id invoice))) = None
        then pg\<lparr>isSaving := True, isEditing := False, refreshes := Suc (refreshes pg),
                isSaving := False\<rparr>
        else pg\<lparr>isSaving := True, alerts := alerts pg @ [''Greska pri spremanju''],
                isSaving := False\<rparr>)"
  by (simp add: handleSave_def send_def Let_def)

lemma save_payload_numbers:
  "map_of (save_payload fd) ''subtotal'' = Some (JNum (Number (subtotal fd)))"
  "map_of (save_payload fd) ''tax_amount'' = Some (JNum (Number (tax_amount fd)))"
  "map_of (save_payload fd) ''total_amount'' = Some (JNum (Number (total_amount fd)))"
  by (simp_all add: save_payload_def)

text \<open>
  Claim C8, as amended. \<^verbatim>\<open>handleSave\<close> always issues the update, and the payload carries
  \<^verbatim>\<open>Number(x)\<close> for each of subtotal, tax_amount and total_amount, whatever \<^verbatim>\<open>x\<close> is:
  no value is rejected. An alert is shown only if the store refuses the write; otherwise
  edit mode ends.
\<close>

theorem handleSave_coerces:
  "sent (snd (handleSave invoice (pg, st)))
      = sent st @ [Update ''invoices'' (save_payload (form pg)) ''id'' (JStr (inv_id invoice))]
   \<and> map_of (save_payload (form pg)) ''subtotal'' = Some (JNum (Number (subtotal (form pg))))
   \<and> map_of (save_payload (form pg)) ''tax_amount''
      = Some (JNum (Number (tax_amount (form pg))))
   \<and> map_of (save_payload (form pg)) ''total_amount''
      = Some (JNum (Number (total_amount (form pg))))
   \<and> alerts (fst (handleSave invoice (pg, st)))
      = (if refuses st (Update ''invoices'' (save_payload (form pg)) ''id''
                          (JStr (inv_id invoice))) = None
         then alerts pg else alerts pg @ [''Greska pri spremanju''])
   \<and> isEditing (fst (handleSave invoice (pg, st)))
      = (if refuses st (Update ''invoices'' (save_payload (form pg)) ''id''
                          (JStr (inv_id invoice))) = None
         then False else isEditing pg)"
  by (simp add: handleSave_sent handleSave_page save_payload_numbers)

text \<open>
  Claim C8 as stated fails: with the text \<^verbatim>\<open>abc\<close> in the subtotal field and a blank
  tax_amount field, the save is not rejected. The update is issued with subtotal
  \<^verbatim>\<open>NaN\<close> and tax_amount 0, no alert is shown, and edit mode ends.
\<close>

theorem handleSave_not_numeric_counterexample:
  "Number (Text ''abc'') = NaN
   \<and> Number (Text []) = Fin 0
   \<and> sent (snd (handleSave sample_invoice
        (sample_page\<lparr>isEditing := True,
           form := sample_form\<lparr>subtotal := Text ''abc'', tax_amount := Text []\<rparr>\<rparr>,
         sample_store)))
      = [Update ''invoices''
           [(''invoice_number'', JStr ''2024-001''), (''invoice_date'', JStr []),
            (''vendor_name'', JStr ''Vendor''), (''vendor_address'', JStr []),
            (''vendor_tax_id'', JStr []), (''vendor_pdv'', JStr []),
            (''buyer_name'', JStr []), (''buyer_address'', JStr []),
            (''buyer_tax_id'', JStr []), (''subtotal'', JNum NaN),
            (''tax_amount'', JNum (Fin 0)), (''total_amount'', JNum (Fin 121)),
            (''currency'', JStr ''EUR''), (''notes'', JStr [])]
           ''id'' (JStr ''inv-1'')]
   \<and> alerts (fst (handleSave sample_invoice
        (sample_page\<lparr>isEditing := True,
           form := sample_form\<lparr>subtotal := Text ''abc'', tax_amount := Text []\<rparr>\<rparr>,
         sample_store))) = []
   \<and> isEditing (fst (handleSave sample_invoice
        (sample_page\<lparr>isEditing := True,
           form := sample_form\<lparr>subtotal := Text ''abc'', tax_amount := Text []\<rparr>\<rparr>,
         sample_store))) = False"
proof -
  have n: "StringToNumber ''abc'' = NaN" "StringToNumber [] = Fin 0"
    by code_simp+
  show ?thesis
    by (simp add: handleSave_sent handleSave_page n)
       (simp add: save_payload_def sample_page_def sample_form_def sample_store_def
          sample_invoice_def n)
qed

section \<open>The merged company data\<close>

lemma settings_or_empty:
  "key \<in> set merged_keys \<Longrightarrow>
   js_get (case s of None \<Rightarrow> [] | Some ps \<Rightarrow> ps) key = settings_get s key"
  by (cases s) (auto simp: merged_keys_def settings_get_def js_get_def Object_prototype_def)

text \<open>Both forms compute the same value for each of the five keys.\<close>

lemma SettingsPage_formData_key:
  assumes "key \<in> set merged_keys"
  shows "map_of (SettingsPage_formData org) key
    = Some (if truthy (nullable (first_class key org))
            then (if key = ''address'' then JStr (composite_address org)
                  else nullable (first_class key org))
            else js_or (settings_get (settings org) key) (JStr []))"
proof -
  have s: "js_get (case settings org of None \<Rightarrow> [] | Some ps \<Rightarrow> ps) k
      = settings_get (settings org) k"
    if "k \<in> set merged_keys" for k
    using that by (rule settings_or_empty)
  have "key = ''pib'' \<or> key = ''pdv_number'' \<or> key = ''address'' \<or> key = ''email''
      \<or> key = ''phone''"
    using assms by (simp add: merged_keys_def)
  then show ?thesis
    using s [of "''pib''"] s [of "''pdv_number''"] s [of "''address''"] s [of "''email''"]
      s [of "''phone''"]
    by (elim disjE) (simp_all add: SettingsPage_formData_def first_class_def js_or_def
        merged_keys_def Let_def)
qed

lemma companyData_key:
  assumes "key \<in> set merged_keys"
  shows "map_of (companyData (Some org)) key
    = Some (if truthy (nullable (first_class key org))
            then (if key = ''address'' then JStr (composite_address org)
                  else nullable (first_class key org))
            else js_or (settings_get (settings org) key) (JStr []))"
proof -
  have "key = ''pib'' \<or> key = ''pdv_number'' \<or> key = ''address'' \<or> key = ''email''
      \<or> key = ''phone''"
    using assms by (simp add: merged_keys_def)
  then show ?thesis
    by (elim disjE) (simp_all add: companyData_def first_class_def js_or_def)
qed

lemma composite_address_start:
  "address org = Some a \<Longrightarrow>
   composite_address org
     = a @ (if truthy (nullable (city org)) then '', '' @ text_of (city org) else [])
         @ (if truthy (nullable (postal_code org)) then '' '' @ text_of (postal_code org)
            else [])"
  by (simp add: composite_address_def text_of_def)

lemma sample_settings:
  "settings sample_current
     = Some [(''pib'', JStr ''999''), (''address'', JStr ''Main St''),
             (''phone'', JStr ''033 123 456'')]"
  "pib sample_current = Some ''123''" "address sample_current = None"
  "phone sample_current = Some []"
  by (simp_all add: sample_current_def with_role_def sample_org_def Organization.defs)

text \<open>
  Claim C9. For each of the keys pib, pdv_number, address, email and phone, in the settings
  form and in the invoice form's company data alike: a non-empty first-class attribute is
  what the merged form shows (for the address, followed by the city and the postal code
  where there are any), whatever the settings map holds; with no first-class attribute the
  merged form shows the value of the settings map, or the empty text if that is missing
  or falsy.
\<close>

theorem merge_prefers_first_class:
  assumes key: "key \<in> set merged_keys"
  shows "(\<forall>v. first_class key org = Some v \<and> v \<noteq> [] \<and> key \<noteq> ''address'' \<longrightarrow>
            map_of (SettingsPage_formData org) key = Some (JStr v)
            \<and> map_of (companyData (Some org)) key = Some (JStr v))
    \<and> (\<forall>v. key = ''address'' \<and> address org = Some v \<and> v \<noteq> [] \<longrightarrow>
            map_of (SettingsPage_formData org) key = Some (JStr (composite_address org))
            \<and> map_of (companyData (Some org)) key = Some (JStr (composite_address org))
            \<and> composite_address org
                = v @ (if truthy (nullable (city org)) then '', '' @ text_of (city org) else [])
                    @ (if truthy (nullable (postal_code org))
                       then '' '' @ text_of (postal_code org) else []))
    \<and> (\<forall>x. first_class key org = None \<and> settings_get (settings org) key = x \<and> truthy x
            \<longrightarrow>
            map_of (SettingsPage_formData org) key = Some x
            \<and> map_of (companyData (Some org)) key = Some x)
    \<and> (first_class key org = None \<and> \<not> truthy (settings_get (settings org) key) \<longrightarrow>
            map_of (SettingsPage_formData org) key = Some (JStr [])
            \<and> map_of (companyData (Some org)) key = Some (JStr []))"
proof -
  note S = SettingsPage_formData_key [OF key, of org]
  note C = companyData_key [OF key, of org]
  have first: "map_of (SettingsPage_formData org) key = Some (JStr v)
      \<and> map_of (companyData (Some org)) key = Some (JStr v)"
    if "first_class key org = Some v" "v \<noteq> []" "key \<noteq> ''address''" for v
    using S C that by (simp add: nullable_def)
  have addr: "map_of (SettingsPage_formData org) key = Some (JStr (composite_address org))
      \<and> map_of (companyData (Some org)) key = Some (JStr (composite_address org))
      \<and> composite_address org
          = v @ (if truthy (nullable (city org)) then '', '' @ text_of (city org) else [])
              @ (if truthy (nullable (postal_code org))
                 then '' '' @ text_of (postal_code org) else [])"
    if k: "key = ''address''" and a: "address org = Some v" and v: "v \<noteq> []" for v
  proof -
    have fc: "first_class key org = Some v"
      using k a by (simp add: first_class_def)
    have "truthy (nullable (first_class key org))"
      using fc v by (simp add: nullable_def)
    then show ?thesis
      using S C k composite_address_start [OF a] by simp
  qed
  have fallback: "map_of (SettingsPage_formData org) key = Some x
      \<and> map_of (companyData (Some org)) key = Some x"
    if "first_class key org = None" "settings_get (settings org) key = x" "truthy x" for x
    using S C that by (simp add: nullable_def js_or_def)
  have blank: "map_of (SettingsPage_formData org) key = Some (JStr [])
      \<and> map_of (companyData (Some org)) key = Some (JStr [])"
    if "first_class key org = None" "\<not> truthy (settings_get (settings org) key)"
    using S C that by (simp add: nullable_def js_or_def)
  show ?thesis
  proof (intro conjI)
    show "\<forall>v. first_class key org = Some v \<and> v \<noteq> [] \<and> key \<noteq> ''address'' \<longrightarrow>
            map_of (SettingsPage_formData org) key = Some (JStr v)
            \<and> map_of (companyData (Some org)) key = Some (JStr v)"
      using first by blast
    show "\<forall>v. key = ''address'' \<and> address org = Some v \<and> v \<noteq> [] \<longrightarrow>
            map_of (SettingsPage_formData org) key = Some (JStr (composite_address org))
            \<and> map_of (companyData (Some org)) key = Some (JStr (composite_address org))
            \<and> composite_address org
                = v @ (if truthy (nullable (city org)) then '', '' @ text_of (city org) else [])
                    @ (if truthy (nullable (postal_code org))
                       then '' '' @ text_of (postal_code org) else [])"
      using addr by blast
    show "\<forall>x. first_class key org = None \<and> settings_get (settings org) key = x \<and> truthy x
            \<longrightarrow>
            map_of (SettingsPage_formData org) key = Some x
            \<and> map_of (companyData (Some org)) key = Some x"
      using fallback by blast
    show "first_class key org = None \<and> \<not> truthy (settings_get (settings org) key) \<longrightarrow>
            map_of (SettingsPage_formData org) key = Some (JStr [])
            \<and> map_of (companyData (Some org)) key = Some (JStr [])"
      using blank by blast
  qed
qed

text \<open>
  The two scenarios of the specification: first-class pib 123 with settings pib 999 shows
  123; no first-class address with settings address Main St shows Main St.
\<close>

theorem merge_prefers_first_class_witness:
  "''pib'' \<in> set merged_keys \<and> ''address'' \<in> set merged_keys
   \<and> first_class ''pib'' sample_current = Some ''123''
   \<and> settings_get (settings sample_current) ''pib'' = JStr ''999''
   \<and> map_of (SettingsPage_formData sample_current) ''pib'' = Some (JStr ''123'')
   \<and> map_of (companyData (Some sample_current)) ''pib'' = Some (JStr ''123'')
   \<and> first_class ''address'' sample_current = None
   \<and> settings_get (settings sample_current) ''address'' = JStr ''Main St''
   \<and> map_of (SettingsPage_formData sample_current) ''address'' = Some (JStr ''Main St'')
   \<and> map_of (companyData (Some sample_current)) ''address'' = Some (JStr ''Main St'')"
proof -
  have k: "''pib'' \<in> set merged_keys" "''address'' \<in> set merged_keys"
    by (simp_all add: merged_keys_def)
  have p: "first_class ''pib'' sample_current = Some ''123''"
    "first_class ''address'' sample_current = None"
    by (simp_all add: first_class_def sample_settings)
  have g: "settings_get (settings sample_current) ''pib'' = JStr ''999''"
    "settings_get (settings sample_current) ''address'' = JStr ''Main St''"
    by (simp_all add: settings_get_def js_get_def sample_settings)
  note pib_first =
    merge_prefers_first_class [OF k(1), of sample_current, THEN conjunct1, rule_format,
      of "''123''"]
  note address_fallback =
    merge_prefers_first_class [OF k(2), of sample_current, THEN conjunct2, THEN conjunct2,
      THEN conjunct1, rule_format, of "JStr ''Main St''"]
  show ?thesis
    using k p g pib_first address_fallback by simp
qed

text \<open>
  Claim C10. Precedence goes by truthiness: for each of the five keys, in both forms, an
  empty first-class attribute gives way to a non-empty text in the settings map.
\<close>

theorem merge_by_truthiness:
  assumes key: "key \<in> set merged_keys"
    and empty: "first_class key org = Some []"
    and fallback: "settings_get (settings org) key = JStr v" "v \<noteq> []"
  shows "map_of (SettingsPage_formData org) key = Some (JStr v)
    \<and> map_of (companyData (Some org)) key = Some (JStr v)"
  using empty fallback
  by (simp add: SettingsPage_formData_key [OF key] companyData_key [OF key] nullable_def
      js_or_def)

theorem merge_by_truthiness_witness:
  "''phone'' \<in> set merged_keys
   \<and> first_class ''phone'' sample_current = Some []
   \<and> settings_get (settings sample_current) ''phone'' = JStr ''033 123 456''
   \<and> map_of (SettingsPage_formData sample_current) ''phone'' = Some (JStr ''033 123 456'')
   \<and> map_of (companyData (Some sample_current)) ''phone'' = Some (JStr ''033 123 456'')"
proof -
  have k: "''phone'' \<in> set merged_keys"
    by (simp add: merged_keys_def)
  have e: "first_class ''phone'' sample_current = Some []"
    by (simp add: first_class_def sample_settings)
  have g: "settings_get (settings sample_current) ''phone'' = JStr ''033 123 456''"
    by (simp add: settings_get_def js_get_def sample_settings)
  show ?thesis
    using merge_by_truthiness [OF k e g] k e g by simp
qed

end
